theory Spec2Isabelle
  imports Main
begin

section \<open>JavaScript values and string helpers\<close>

text \<open>
  The synthesizer \<^verbatim>\<open>getTraefikConfig\<close> (src/server/lib/traefik/getTraefikConfig.ts) works on
  nullable database columns and tests them by JavaScript truthiness.  A nullable column is an
  \<open>option\<close>; \<open>None\<close> stands for \<^verbatim>\<open>null\<close> (or \<^verbatim>\<open>undefined\<close>).  A string is truthy when it is
  present and not empty, a number when it is present and not zero.
\<close>

definition truthy_str :: "string option \<Rightarrow> bool" where
  "truthy_str s = (case s of None \<Rightarrow> False | Some v \<Rightarrow> v \<noteq> [])"

definition truthy_num :: "int option \<Rightarrow> bool" where
  "truthy_num n = (case n of None \<Rightarrow> False | Some v \<Rightarrow> v \<noteq> 0)"

definition truthy_bool :: "bool option \<Rightarrow> bool" where
  "truthy_bool b = (case b of None \<Rightarrow> False | Some v \<Rightarrow> v)"

text \<open>Decimal rendering of an integer, as a template literal renders a number.\<close>

definition digit_char :: "nat \<Rightarrow> char" where
  "digit_char d = ''0123456789'' ! d"

fun digits_of :: "nat \<Rightarrow> string" where
  "digits_of n =
     (if n < 10 then [digit_char n]
      else digits_of (n div 10) @ [digit_char (n mod 10)])"

declare digits_of.simps [simp del]

definition num_str :: "int \<Rightarrow> string" where
  "num_str i = (if i < 0 then CHR ''-'' # digits_of (nat (- i)) else digits_of (nat i))"

text \<open>
  A template literal renders \<^verbatim>\<open>null\<close> as the text "null" and \<^verbatim>\<open>undefined\<close> as "undefined".
\<close>

definition tmpl_null :: "string option \<Rightarrow> string" where
  "tmpl_null s = (case s of None \<Rightarrow> ''null'' | Some v \<Rightarrow> v)"

definition tmpl_undefined :: "string option \<Rightarrow> string" where
  "tmpl_undefined s = (case s of None \<Rightarrow> ''undefined'' | Some v \<Rightarrow> v)"

definition tmpl_num :: "int option \<Rightarrow> string" where
  "tmpl_num n = (case n of None \<Rightarrow> ''null'' | Some v \<Rightarrow> num_str v)"

text \<open>\<^verbatim>\<open>String.prototype.split\<close> with a one-character separator, and \<^verbatim>\<open>Array.prototype.join\<close>.\<close>

fun split_on :: "char \<Rightarrow> string \<Rightarrow> string list" where
  "split_on c [] = [[]]"
| "split_on c (x # xs) =
     (if x = c then [] # split_on c xs
      else (case split_on c xs of [] \<Rightarrow> [[x]] | p # ps \<Rightarrow> (x # p) # ps))"

fun join :: "string \<Rightarrow> string list \<Rightarrow> string" where
  "join sep [] = []"
| "join sep [x] = x"
| "join sep (x # y # ys) = x @ sep @ join sep (y # ys)"

text \<open>
  A \<open>char\<close> has eight bits: the strings of the model are the JavaScript strings whose code
  units are below U+0100, each \<open>char\<close> being one code unit.  On these,
  \<^verbatim>\<open>String.prototype.trim\<close> strips tab, line feed, vertical tab, form feed, carriage
  return, space and no-break space (U+00A0), and \<^verbatim>\<open>toLowerCase\<close> maps A-Z, U+00C0-U+00D6 and
  U+00D8-U+00DE to the code unit 32 above.
\<close>

definition is_space :: "char \<Rightarrow> bool" where
  "is_space c =
     (c \<in> set [CHR 0x09, CHR 0x0A, CHR 0x0B, CHR 0x0C, CHR 0x0D, CHR '' '', CHR 0xA0])"

definition trim :: "string \<Rightarrow> string" where
  "trim s = rev (dropWhile is_space (rev (dropWhile is_space s)))"

definition upper_letters :: string where
  "upper_letters =
     ''ABCDEFGHIJKLMNOPQRSTUVWXYZ''
     @ [CHR 0xC0, CHR 0xC1, CHR 0xC2, CHR 0xC3, CHR 0xC4, CHR 0xC5, CHR 0xC6, CHR 0xC7,
        CHR 0xC8, CHR 0xC9, CHR 0xCA, CHR 0xCB, CHR 0xCC, CHR 0xCD, CHR 0xCE, CHR 0xCF,
        CHR 0xD0, CHR 0xD1, CHR 0xD2, CHR 0xD3, CHR 0xD4, CHR 0xD5, CHR 0xD6, CHR 0xD8,
        CHR 0xD9, CHR 0xDA, CHR 0xDB, CHR 0xDC, CHR 0xDD, CHR 0xDE]"

definition lower_letters :: string where
  "lower_letters =
     ''abcdefghijklmnopqrstuvwxyz''
     @ [CHR 0xE0, CHR 0xE1, CHR 0xE2, CHR 0xE3, CHR 0xE4, CHR 0xE5, CHR 0xE6, CHR 0xE7,
        CHR 0xE8, CHR 0xE9, CHR 0xEA, CHR 0xEB, CHR 0xEC, CHR 0xED, CHR 0xEE, CHR 0xEF,
        CHR 0xF0, CHR 0xF1, CHR 0xF2, CHR 0xF3, CHR 0xF4, CHR 0xF5, CHR 0xF6, CHR 0xF8,
        CHR 0xF9, CHR 0xFA, CHR 0xFB, CHR 0xFC, CHR 0xFD, CHR 0xFE]"

definition lower_char :: "char \<Rightarrow> char" where
  "lower_char c =
     (case map_of (zip upper_letters lower_letters) c of
        None \<Rightarrow> c
      | Some l \<Rightarrow> l)"

definition toLowerCase :: "string \<Rightarrow> string" where
  "toLowerCase s = map lower_char s"

definition startsWith :: "string \<Rightarrow> string \<Rightarrow> bool" where
  "startsWith s p = (take (length p) s = p)"

text \<open>
  \<^verbatim>\<open>Array.prototype.findIndex\<close> (\<open>-1\<close> when nothing matches) and \<^verbatim>\<open>Array.prototype.filter\<close>
  with the three-argument callback \<^verbatim>\<open>(v, i, a)\<close>.
\<close>

fun findIndex :: "('a \<Rightarrow> bool) \<Rightarrow> 'a list \<Rightarrow> int" where
  "findIndex p [] = - 1"
| "findIndex p (x # xs) =
     (if p x then 0 else (let i = findIndex p xs in if i < 0 then - 1 else i + 1))"

definition filter_indexed :: "('a \<Rightarrow> nat \<Rightarrow> 'a list \<Rightarrow> bool) \<Rightarrow> 'a list \<Rightarrow> 'a list" where
  "filter_indexed f a = map fst (filter (\<lambda>(v, i). f v i a) (zip a [0..<length a]))"

section \<open>Sites and targets\<close>

text \<open>The type \<^verbatim>\<open>TargetWithSite\<close> (lines 133-141) and the object pushed at lines 299-314.\<close>

record site =
  site_siteId :: int
  site_type :: string
  site_subnet :: "string option"
  site_exitNodeId :: "int option"
  site_online :: bool

record target =
  target_resourceId :: int
  target_targetId :: int
  target_ip :: "string option"
  target_method :: "string option"
  target_port :: "int option"
  target_internalPort :: "int option"
  target_enabled :: bool
  target_site :: site

datatype server = Url string | Address string

section \<open>Availability and backend selection\<close>

text \<open>\<^verbatim>\<open>targets.some(t => t.site.online)\<close>, lines 366, 676 and 800.\<close>

definition anySitesOnline :: "target list \<Rightarrow> bool" where
  "anySitesOnline targets = list_ex (\<lambda>t. site_online (target_site t)) targets"

text \<open>The callback of \<^verbatim>\<open>availableServers\<close>, lines 363-377.\<close>

definition isAvailable :: "target list \<Rightarrow> target \<Rightarrow> bool" where
  "isAvailable targets target =
     (if \<not> target_enabled target then False
      else if anySitesOnline targets \<and> \<not> site_online (target_site target) then False
      else if site_type (target_site target) = ''local''
              \<or> site_type (target_site target) = ''wireguard''
        then truthy_str (target_ip target) \<and> truthy_num (target_port target)
               \<and> truthy_str (target_method target)
      else if site_type (target_site target) = ''newt''
        then truthy_num (target_internalPort target) \<and> truthy_str (target_method target)
               \<and> truthy_str (site_subnet (target_site target))
      else False)"

definition availableServers :: "target list \<Rightarrow> target list" where
  "availableServers targets = filter (isAvailable targets) targets"

text \<open>The filter callback of the HTTP server list, lines 682-713.\<close>

definition httpKeep :: "target list \<Rightarrow> target \<Rightarrow> bool" where
  "httpKeep targets target =
     (if \<not> target_enabled target then False
      else if anySitesOnline targets \<and> \<not> site_online (target_site target) then False
      else if site_type (target_site target) = ''local''
              \<or> site_type (target_site target) = ''wireguard''
        then (if \<not> truthy_str (target_ip target) \<or> \<not> truthy_num (target_port target)
                   \<or> \<not> truthy_str (target_method target)
              then False else True)
      else if site_type (target_site target) = ''newt''
        then (if \<not> truthy_num (target_internalPort target)
                   \<or> \<not> truthy_str (target_method target)
                   \<or> \<not> truthy_str (site_subnet (target_site target))
              then False else True)
      else True)"

text \<open>
  The map callback, lines 714-729.  A target of another site type falls off the end of the
  callback, which yields \<^verbatim>\<open>undefined\<close> (\<open>None\<close>).  The newt branch reads
  \<^verbatim>\<open>subnet!.split("/")[0]\<close>; a null subnet raises there, which the filter before it rules out,
  so the model takes the empty text for that case.
\<close>

definition subnetAddress :: "string option \<Rightarrow> string" where
  "subnetAddress s = (case s of None \<Rightarrow> [] | Some v \<Rightarrow> hd (split_on CHR ''/'' v))"

definition httpServerOf :: "target \<Rightarrow> server option" where
  "httpServerOf target =
     (if site_type (target_site target) = ''local''
         \<or> site_type (target_site target) = ''wireguard''
      then Some (Url (tmpl_null (target_method target) @ ''://''
                  @ tmpl_null (target_ip target) @ '':'' @ tmpl_num (target_port target)))
      else if site_type (target_site target) = ''newt''
      then Some (Url (tmpl_null (target_method target) @ ''://''
                  @ subnetAddress (site_subnet (target_site target)) @ '':''
                  @ tmpl_num (target_internalPort target)))
      else None)"

text \<open>The duplicate filter, lines 731-736: \<^verbatim>\<open>a.findIndex(t => t && v && t.url === v.url) === i\<close>.\<close>

definition url :: "server \<Rightarrow> string option" where
  "url s = (case s of Url u \<Rightarrow> Some u | Address _ \<Rightarrow> None)"

definition sameUrl :: "server option \<Rightarrow> server option \<Rightarrow> bool" where
  "sameUrl t v =
     (case t of None \<Rightarrow> False
      | Some t' \<Rightarrow> (case v of None \<Rightarrow> False | Some v' \<Rightarrow> url t' = url v'))"

definition firstOfItsUrl :: "server option \<Rightarrow> nat \<Rightarrow> server option list \<Rightarrow> bool" where
  "firstOfItsUrl v i a = (findIndex (\<lambda>t. sameUrl t v) a = int i)"

definition httpServers :: "target list \<Rightarrow> server option list" where
  "httpServers targets =
     filter_indexed firstOfItsUrl (map httpServerOf (filter (httpKeep targets) targets))"

text \<open>The filter and map callbacks of the TCP/UDP server list, lines 805-847.\<close>

definition rawKeep :: "target list \<Rightarrow> target \<Rightarrow> bool" where
  "rawKeep targets target =
     (if \<not> target_enabled target then False
      else if anySitesOnline targets \<and> \<not> site_online (target_site target) then False
      else if site_type (target_site target) = ''local''
              \<or> site_type (target_site target) = ''wireguard''
        then (if \<not> truthy_str (target_ip target) \<or> \<not> truthy_num (target_port target)
              then False else True)
      else if site_type (target_site target) = ''newt''
        then (if \<not> truthy_num (target_internalPort target)
                   \<or> \<not> truthy_str (site_subnet (target_site target))
              then False else True)
      else True)"

definition rawServerOf :: "target \<Rightarrow> server option" where
  "rawServerOf target =
     (if site_type (target_site target) = ''local''
         \<or> site_type (target_site target) = ''wireguard''
      then Some (Address (tmpl_null (target_ip target) @ '':'' @ tmpl_num (target_port target)))
      else if site_type (target_site target) = ''newt''
      then Some (Address (subnetAddress (site_subnet (target_site target)) @ '':''
                  @ tmpl_num (target_internalPort target)))
      else None)"

definition rawServers :: "target list \<Rightarrow> server option list" where
  "rawServers targets = map rawServerOf (filter (rawKeep targets) targets)"

section \<open>Rows, route groups and configuration\<close>

text \<open>One row of the query result, lines 146-193.\<close>

record row =
  row_resourceId :: int
  row_resourceName :: string
  row_fullDomain :: "string option"
  row_ssl :: bool
  row_http :: bool
  row_proxyPort :: "int option"
  row_protocol :: string
  row_subdomain :: "string option"
  row_domainId :: "string option"
  row_enabled :: bool
  row_stickySession :: bool
  row_tlsServerName :: "string option"
  row_setHostHeader :: "string option"
  row_enableProxy :: "bool option"
  row_headers :: "string option"
  row_proxyProtocol :: bool
  row_proxyProtocolVersion :: "int option"
  row_maintenanceModeEnabled :: bool
  row_maintenanceModeType :: "string option"
  row_maintenanceTitle :: "string option"
  row_maintenanceMessage :: "string option"
  row_maintenanceEstimatedTime :: "string option"
  row_targetId :: int
  row_targetEnabled :: bool
  row_ip :: "string option"
  row_method :: "string option"
  row_port :: "int option"
  row_internalPort :: "int option"
  row_hcHealth :: "string option"
  row_path :: "string option"
  row_pathMatchType :: "string option"
  row_rewritePath :: "string option"
  row_rewritePathType :: "string option"
  row_priority :: "int option"
  row_siteId :: int
  row_siteType :: string
  row_siteOnline :: bool
  row_subnet :: "string option"
  row_exitNodeId :: "int option"
  row_domainCertResolver :: "string option"

text \<open>
  The value stored in \<^verbatim>\<open>resourcesMap\<close>, lines 265-296; the loop reads it as \<^verbatim>\<open>resource\<close>.
\<close>

record resource =
  resourceId :: int
  name :: string
  fullDomain :: "string option"
  ssl :: bool
  http :: bool
  proxyPort :: "int option"
  protocol :: string
  subdomain :: "string option"
  domainId :: "string option"
  enabled :: bool
  stickySession :: bool
  tlsServerName :: "string option"
  setHostHeader :: "string option"
  enableProxy :: "bool option"
  targets :: "target list"
  headers :: "string option"
  proxyProtocol :: bool
  proxyProtocolVersion :: int
  path :: "string option"
  pathMatchType :: "string option"
  rewritePath :: "string option"
  rewritePathType :: "string option"
  priority :: int
  domainCertResolver :: "string option"
  maintenanceModeEnabled :: bool
  maintenanceModeType :: "string option"
  maintenanceTitle :: "string option"
  maintenanceMessage :: "string option"
  maintenanceEstimatedTime :: "string option"

text \<open>
  The loop reads \<^verbatim>\<open>resource.preferWildcardCert\<close> at lines 416 and 471.  The query does not
  select that column and the object built at lines 265-296 has no such property, so the read
  yields \<^verbatim>\<open>undefined\<close> for every group.
\<close>

definition preferWildcardCert :: "resource \<Rightarrow> bool option" where
  "preferWildcardCert r = None"

text \<open>The part of \<^verbatim>\<open>config.getRawConfig().traefik\<close> that the synthesizer reads.\<close>

record traefik =
  maintenance_port :: "int option"
  maintenance_host :: "string option"
  http_entrypoint :: string
  https_entrypoint :: string
  cert_resolver :: string
  prefer_wildcard_cert :: bool
  additional_middlewares :: "string list option"
  pp_transport_prefix :: string

section \<open>The output document\<close>

record tls =
  tls_certResolver :: string
  tls_domains :: "string list option"

record router =
  router_entryPoints :: "string list"
  router_middlewares :: "string list option"
  router_service :: string
  router_rule :: "string option"
  router_priority :: "int option"
  router_tls :: "tls option"

datatype sticky = Cookie string bool bool | IpStrategy int bool

record service =
  lb_servers :: "server option list"
  lb_passHostHeader :: "bool option"
  lb_sticky :: "sticky option"
  lb_serversTransport :: "string option"

text \<open>
  A value that \<^verbatim>\<open>JSON.parse\<close> can return.  A number is carried as the text that \<^verbatim>\<open>String\<close>
  gives for it, an object as its own properties.
\<close>

datatype json =
  JNull
  | JBool bool
  | JNumber string
  | JString string
  | JArray "json list"
  | JObject "(string \<times> json) list"

text \<open>
  A middleware definition.  What the path-rewrite generator returns is opaque to the
  synthesizer; \<open>Rewrite\<close> carries it as text.  The custom request headers are the own
  properties of \<^verbatim>\<open>headersObj\<close>, each with its value (\<open>None\<close> for \<^verbatim>\<open>undefined\<close>), in the order
  of their first assignment.
\<close>

datatype middleware =
  RedirectScheme string
  | CustomRequestHeaders "(string \<times> json option) list"
  | Rewrite string

record serversTransport =
  st_serverName :: string
  st_insecureSkipVerify :: bool

record protocolSection =
  routers :: "(string \<rightharpoonup> router) option"
  services :: "(string \<rightharpoonup> service) option"
  middlewares :: "(string \<rightharpoonup> middleware) option"
  serversTransports :: "(string \<rightharpoonup> serversTransport) option"

type_synonym document = "string \<rightharpoonup> protocolSection"

datatype error = TypeError

section \<open>External collaborators\<close>

text \<open>
  \<^verbatim>\<open>sanitize\<close> and \<^verbatim>\<open>validatePathRewriteConfig\<close> (./utils), \<^verbatim>\<open>createPathRewriteMiddleware\<close>
  (./middleware) and \<^verbatim>\<open>JSON.parse\<close> on the serialized header list are parameters of the
  model.  \<open>validatePathRewriteConfig\<close> gives the \<^verbatim>\<open>isValid\<close> flag; the other two give \<open>None\<close>
  when they throw.  \<open>parseHeaders\<close> gives whatever value the text parses to, an array or not.
\<close>

record rewriteResult =
  rw_middlewares :: "(string \<times> middleware) list"
  rw_chain :: "string list option"

record env =
  sanitize :: "string option \<Rightarrow> string option"
  validatePathRewriteConfig ::
    "string option \<Rightarrow> string option \<Rightarrow> string option \<Rightarrow> string option \<Rightarrow> bool"
  createPathRewriteMiddleware ::
    "string \<Rightarrow> string \<Rightarrow> string \<Rightarrow> string \<Rightarrow> string \<Rightarrow> rewriteResult option"
  parseHeaders :: "string \<Rightarrow> json option"

section \<open>Route-group aggregation\<close>

text \<open>\<^verbatim>\<open>x || ""\<close> on a nullable string, and \<^verbatim>\<open>a ?? b\<close>.\<close>

definition or_empty :: "string option \<Rightarrow> string" where
  "or_empty s = (case s of None \<Rightarrow> [] | Some v \<Rightarrow> v)"

definition nullish :: "'a option \<Rightarrow> 'a \<Rightarrow> 'a" where
  "nullish a b = (case a of None \<Rightarrow> b | Some v \<Rightarrow> v)"

text \<open>
  Lines 232-248.  \<^verbatim>\<open>filter(Boolean)\<close> drops the empty strings, and a resource id of zero.
\<close>

definition pathKey :: "env \<Rightarrow> row \<Rightarrow> string" where
  "pathKey e r =
     join ''-'' (filter (\<lambda>s. s \<noteq> [])
       [or_empty (sanitize e (row_path r)),
        or_empty (row_pathMatchType r),
        or_empty (row_rewritePath r),
        or_empty (row_rewritePathType r)])"

definition mapKey :: "env \<Rightarrow> row \<Rightarrow> string" where
  "mapKey e r =
     join ''-'' ((if row_resourceId r \<noteq> 0 then [num_str (row_resourceId r)] else [])
                  @ (if pathKey e r \<noteq> [] then [pathKey e r] else []))"

definition groupKey :: "env \<Rightarrow> row \<Rightarrow> string option" where
  "groupKey e r = sanitize e (Some (mapKey e r))"

text \<open>The object stored at lines 265-296, with its empty target list.\<close>

definition newResource :: "env \<Rightarrow> row \<Rightarrow> resource" where
  "newResource e r =
     \<lparr> resourceId = row_resourceId r,
       name = or_empty (sanitize e (Some (row_resourceName r))),
       fullDomain = row_fullDomain r,
       ssl = row_ssl r,
       http = row_http r,
       proxyPort = row_proxyPort r,
       protocol = row_protocol r,
       subdomain = row_subdomain r,
       domainId = row_domainId r,
       enabled = row_enabled r,
       stickySession = row_stickySession r,
       tlsServerName = row_tlsServerName r,
       setHostHeader = row_setHostHeader r,
       enableProxy = row_enableProxy r,
       targets = [],
       headers = row_headers r,
       proxyProtocol = row_proxyProtocol r,
       proxyProtocolVersion = nullish (row_proxyProtocolVersion r) 1,
       path = row_path r,
       pathMatchType = row_pathMatchType r,
       rewritePath = row_rewritePath r,
       rewritePathType = row_rewritePathType r,
       priority = nullish (row_priority r) 100,
       domainCertResolver = row_domainCertResolver r,
       maintenanceModeEnabled = row_maintenanceModeEnabled r,
       maintenanceModeType = row_maintenanceModeType r,
       maintenanceTitle = row_maintenanceTitle r,
       maintenanceMessage = row_maintenanceMessage r,
       maintenanceEstimatedTime = row_maintenanceEstimatedTime r \<rparr>"

text \<open>The target pushed at lines 299-314.\<close>

definition targetOf :: "row \<Rightarrow> target" where
  "targetOf r =
     \<lparr> target_resourceId = row_resourceId r,
       target_targetId = row_targetId r,
       target_ip = row_ip r,
       target_method = row_method r,
       target_port = row_port r,
       target_internalPort = row_internalPort r,
       target_enabled = row_targetEnabled r,
       target_site =
         \<lparr> site_siteId = row_siteId r,
           site_type = row_siteType r,
           site_subnet = row_subnet r,
           site_exitNodeId = row_exitNodeId r,
           site_online = row_siteOnline r \<rparr> \<rparr>"

text \<open>
  \<^verbatim>\<open>resourcesMap\<close> is a JavaScript \<^verbatim>\<open>Map\<close>, which iterates in insertion order: an association
  list with one entry per key.
\<close>

type_synonym resourcesMap = "(string option \<times> resource) list"

definition pushTarget :: "string option \<Rightarrow> target \<Rightarrow> resourcesMap \<Rightarrow> resourcesMap" where
  "pushTarget key t m =
     map (\<lambda>(k, r). if k = key then (k, r\<lparr>targets := targets r @ [t]\<rparr>) else (k, r)) m"

text \<open>The callback of \<^verbatim>\<open>forEach\<close>, lines 229-315.\<close>

definition addRow :: "env \<Rightarrow> resourcesMap \<Rightarrow> row \<Rightarrow> resourcesMap" where
  "addRow e m r =
     (let key = groupKey e r in
      if map_of m key = None then
        (if \<not> validatePathRewriteConfig e (row_path r) (row_pathMatchType r)
                (row_rewritePath r) (row_rewritePathType r)
         then m
         else pushTarget key (targetOf r) (m @ [(key, newResource e r)]))
      else pushTarget key (targetOf r) m)"

definition aggregate :: "env \<Rightarrow> row list \<Rightarrow> resourcesMap" where
  "aggregate e rows = foldl (addRow e) [] rows"

section \<open>Emission for one HTTP route group\<close>

definition redirectHttpsMiddlewareName :: string where
  "redirectHttpsMiddlewareName = ''redirect-to-https''"

definition badgerMiddlewareName :: string where
  "badgerMiddlewareName = ''badger''"

definition routerNameOf :: "string option \<Rightarrow> resource \<Rightarrow> string" where
  "routerNameOf key r = tmpl_undefined key @ ''-'' @ name r @ ''-router''"

definition serviceNameOf :: "string option \<Rightarrow> resource \<Rightarrow> string" where
  "serviceNameOf key r = tmpl_undefined key @ ''-'' @ name r @ ''-service''"

definition transportNameOf :: "string option \<Rightarrow> string" where
  "transportNameOf key = tmpl_undefined key @ ''-transport''"

definition headersMiddlewareNameOf :: "string option \<Rightarrow> string" where
  "headersMiddlewareNameOf key = tmpl_undefined key @ ''-headers-middleware''"

definition maintenanceServiceNameOf :: "string option \<Rightarrow> string" where
  "maintenanceServiceNameOf key = tmpl_undefined key @ ''-maintenance-service''"

definition maintenanceRouterNameOf :: "string option \<Rightarrow> string" where
  "maintenanceRouterNameOf key = tmpl_undefined key @ ''-maintenance-router''"

definition hostRule :: "string \<Rightarrow> string" where
  "hostRule d = ''Host(`'' @ d @ ''`)''"

text \<open>Lines 380-397.\<close>

definition hasHealthyServers :: "resource \<Rightarrow> bool" where
  "hasHealthyServers r = (length (availableServers (targets r)) > 0)"

definition showMaintenancePage :: "resource \<Rightarrow> bool" where
  "showMaintenancePage r =
     (if maintenanceModeEnabled r then
        (if maintenanceModeType r = Some ''forced'' then True
         else if maintenanceModeType r = Some ''automatic'' then \<not> hasHealthyServers r
         else False)
      else False)"

definition or_empty_map :: "('k \<rightharpoonup> 'v) option \<Rightarrow> ('k \<rightharpoonup> 'v)" where
  "or_empty_map m = (case m of None \<Rightarrow> Map.empty | Some v \<Rightarrow> v)"

text \<open>
  Writes to \<^verbatim>\<open>config_output.http.routers[...]\<close> and \<^verbatim>\<open>.services[...]\<close>.  In the HTTP branch
  both maps exist when they are written: lines 354-359 create them.
\<close>

definition putRouter :: "string \<Rightarrow> router \<Rightarrow> protocolSection \<Rightarrow> protocolSection" where
  "putRouter n v h = h\<lparr>routers := Some ((or_empty_map (routers h))(n \<mapsto> v))\<rparr>"

definition putService :: "string \<Rightarrow> service \<Rightarrow> protocolSection \<Rightarrow> protocolSection" where
  "putService n v h = h\<lparr>services := Some ((or_empty_map (services h))(n \<mapsto> v))\<rparr>"

text \<open>The maintenance branch, lines 399-451.\<close>

definition maintenanceWildCard :: "resource \<Rightarrow> string" where
  "maintenanceWildCard r =
     (let domainParts = split_on CHR ''.'' (or_empty (fullDomain r)) in
      if truthy_str (subdomain r) then ''*.'' @ join ''.'' (drop 1 domainParts)
      else or_empty (fullDomain r))"

definition maintenanceTls :: "traefik \<Rightarrow> resource \<Rightarrow> tls" where
  "maintenanceTls cfg r =
     \<lparr> tls_certResolver =
         (case domainCertResolver r of
            None \<Rightarrow> cert_resolver cfg
          | Some s \<Rightarrow> if trim s \<noteq> [] then trim s else cert_resolver cfg),
       tls_domains =
         (if nullish (preferWildcardCert r) (prefer_wildcard_cert cfg)
          then Some [maintenanceWildCard r] else None) \<rparr>"

definition maintenanceService :: "traefik \<Rightarrow> service" where
  "maintenanceService cfg =
     \<lparr> lb_servers =
         [Some (Url (''http://''
            @ (if truthy_str (maintenance_host cfg) then or_empty (maintenance_host cfg)
               else ''pangolin'')
            @ '':''
            @ num_str (if truthy_num (maintenance_port cfg) then nullish (maintenance_port cfg) 0
                       else 8888)))],
       lb_passHostHeader = Some True,
       lb_sticky = None,
       lb_serversTransport = None \<rparr>"

definition maintenanceRouter :: "traefik \<Rightarrow> string option \<Rightarrow> resource \<Rightarrow> router" where
  "maintenanceRouter cfg key r =
     \<lparr> router_entryPoints = [if ssl r then https_entrypoint cfg else http_entrypoint cfg],
       router_middlewares = None,
       router_service = maintenanceServiceNameOf key,
       router_rule = Some (hostRule (or_empty (fullDomain r))),
       router_priority = Some 2000,
       router_tls = (if ssl r then Some (maintenanceTls cfg r) else None) \<rparr>"

definition maintenanceRedirect :: "traefik \<Rightarrow> string option \<Rightarrow> resource \<Rightarrow> router" where
  "maintenanceRedirect cfg key r =
     \<lparr> router_entryPoints = [http_entrypoint cfg],
       router_middlewares = Some [redirectHttpsMiddlewareName],
       router_service = maintenanceServiceNameOf key,
       router_rule = Some (hostRule (or_empty (fullDomain r))),
       router_priority = Some 2000,
       router_tls = None \<rparr>"

definition emitMaintenance ::
  "traefik \<Rightarrow> string option \<Rightarrow> resource \<Rightarrow> protocolSection \<Rightarrow> protocolSection" where
  "emitMaintenance cfg key r h =
     (let h1 = putService (maintenanceServiceNameOf key) (maintenanceService cfg) h;
          h2 = putRouter (maintenanceRouterNameOf key) (maintenanceRouter cfg key r) h1
      in if ssl r
         then putRouter (maintenanceRouterNameOf key @ ''-redirect'')
                (maintenanceRedirect cfg key r) h2
         else h2)"

text \<open>The TLS block of the normal branch, lines 453-502.\<close>

definition wildCard :: "resource \<Rightarrow> string" where
  "wildCard r =
     (let domainParts = split_on CHR ''.'' (tmpl_null (fullDomain r));
          w = (if length domainParts \<le> 2 then ''*.'' @ join ''.'' domainParts
               else ''*.'' @ join ''.'' (drop 1 domainParts))
      in if \<not> truthy_str (subdomain r) then or_empty (fullDomain r) else w)"

definition resolverName :: "traefik \<Rightarrow> resource \<Rightarrow> string" where
  "resolverName cfg r =
     (if truthy_str (domainCertResolver r) then trim (or_empty (domainCertResolver r))
      else cert_resolver cfg)"

definition preferWildcard :: "traefik \<Rightarrow> resource \<Rightarrow> bool" where
  "preferWildcard cfg r =
     (if preferWildcardCert r \<noteq> None then nullish (preferWildcardCert r) False
      else prefer_wildcard_cert cfg)"

definition normalTls :: "traefik \<Rightarrow> resource \<Rightarrow> tls" where
  "normalTls cfg r =
     \<lparr> tls_certResolver = resolverName cfg r,
       tls_domains = (if preferWildcard cfg r then Some [wildCard r] else None) \<rparr>"

text \<open>
  The middleware chain, lines 504-599.  The state threaded through is the pair of
  \<^verbatim>\<open>config_output.http.middlewares\<close> and the local list \<^verbatim>\<open>routerMiddlewares\<close>.
  \<^verbatim>\<open>Object.assign\<close> stores the entries of its source one after the other.
\<close>

definition assign :: "('k \<rightharpoonup> 'v) \<Rightarrow> ('k \<times> 'v) list \<Rightarrow> ('k \<rightharpoonup> 'v)" where
  "assign m kvs = foldl (\<lambda>acc (k, v). acc(k \<mapsto> v)) m kvs"

type_synonym chainState = "(string \<rightharpoonup> middleware) option \<times> string list"

definition applyRewrite :: "env \<Rightarrow> string option \<Rightarrow> resource \<Rightarrow> chainState \<Rightarrow> chainState" where
  "applyRewrite e key r st =
     (case st of (mws, routerMiddlewares) \<Rightarrow>
        if rewritePath r \<noteq> None \<and> path r \<noteq> None
           \<and> truthy_str (pathMatchType r) \<and> truthy_str (rewritePathType r)
        then
          (let rewriteMiddlewareName =
                 ''rewrite-r'' @ num_str (resourceId r) @ ''-'' @ tmpl_undefined key
           in case createPathRewriteMiddleware e rewriteMiddlewareName
                     (or_empty (path r)) (or_empty (pathMatchType r))
                     (or_empty (rewritePath r)) (or_empty (rewritePathType r)) of
                None \<Rightarrow> (mws, routerMiddlewares)
              | Some rewriteResult \<Rightarrow>
                  (Some (assign (or_empty_map mws) (rw_middlewares rewriteResult)),
                   routerMiddlewares
                     @ (case rw_chain rewriteResult of
                          Some chain \<Rightarrow> chain
                        | None \<Rightarrow> [rewriteMiddlewareName])))
        else (mws, routerMiddlewares))"

text \<open>
  The custom headers, lines 562-599.  \<^verbatim>\<open>JSON.parse\<close> sits in a \<^verbatim>\<open>try\<close>; the loop
  \<^verbatim>\<open>headersArr.forEach(header => headersObj[header.name] = header.value)\<close> does not, so
  what it raises leaves \<^verbatim>\<open>getTraefikConfig\<close>:
  \<^item> a parsed value that is not an array has no \<^verbatim>\<open>forEach\<close> function (for \<^verbatim>\<open>null\<close> the
    property read itself raises);
  \<^item> an array element \<^verbatim>\<open>null\<close> raises at \<^verbatim>\<open>header.name\<close>; any other element has the
    properties of its own or none (\<^verbatim>\<open>undefined\<close>).
  The property name is converted to a string as JavaScript does.
\<close>

fun jsToString :: "json \<Rightarrow> string" where
  "jsToString JNull = ''null''"
| "jsToString (JBool b) = (if b then ''true'' else ''false'')"
| "jsToString (JNumber n) = n"
| "jsToString (JString t) = t"
| "jsToString (JArray xs) =
     join '','' (map (\<lambda>x. if x = JNull then [] else jsToString x) xs)"
| "jsToString (JObject kvs) = ''[object Object]''"

definition toPropertyKey :: "json option \<Rightarrow> string" where
  "toPropertyKey v = (case v of None \<Rightarrow> ''undefined'' | Some j \<Rightarrow> jsToString j)"

definition property :: "json \<Rightarrow> string \<Rightarrow> json option" where
  "property j k = (case j of JObject kvs \<Rightarrow> map_of kvs k | _ \<Rightarrow> None)"

text \<open>
  \<^verbatim>\<open>headersObj[name] = value\<close> on a plain object: an existing key keeps its place and takes
  the new value, a new key goes to the end.  The name \<^verbatim>\<open>__proto__\<close> reaches the setter
  inherited from \<^verbatim>\<open>Object.prototype\<close> and creates no property.  (\<^verbatim>\<open>Object.keys\<close> lists
  integer-like names first; the list keeps the order of assignment, which no statement
  below depends on.)
\<close>

type_synonym headers = "(string \<times> json option) list"

fun obj_put :: "string \<Rightarrow> json option \<Rightarrow> headers \<Rightarrow> headers" where
  "obj_put k v [] = [(k, v)]"
| "obj_put k v ((k', v') # rest) =
     (if k' = k then (k, v) # rest else (k', v') # obj_put k v rest)"

definition obj_set :: "string \<Rightarrow> json option \<Rightarrow> headers \<Rightarrow> headers" where
  "obj_set k v obj = (if k = ''__proto__'' then obj else obj_put k v obj)"

fun forEachHeader :: "json list \<Rightarrow> headers \<Rightarrow> error + headers" where
  "forEachHeader [] obj = Inr obj"
| "forEachHeader (header # rest) obj =
     (if header = JNull then Inl TypeError
      else forEachHeader rest
             (obj_set (toPropertyKey (property header ''name'')) (property header ''value'') obj))"

definition parsedHeaders :: "env \<Rightarrow> resource \<Rightarrow> error + headers" where
  "parsedHeaders e r =
     (if truthy_str (headers r)
      then (case parseHeaders e (or_empty (headers r)) of
              None \<Rightarrow> forEachHeader [] []
            | Some (JArray headersArr) \<Rightarrow> forEachHeader headersArr []
            | Some _ \<Rightarrow> Inl TypeError)
      else Inr [])"

definition headersObj :: "env \<Rightarrow> resource \<Rightarrow> error + headers" where
  "headersObj e r =
     (case parsedHeaders e r of
        Inl err \<Rightarrow> Inl err
      | Inr obj \<Rightarrow>
          Inr (if truthy_str (setHostHeader r)
               then obj_set ''Host'' (Some (JString (or_empty (setHostHeader r)))) obj
               else obj))"

definition applyHeaders ::
  "env \<Rightarrow> string option \<Rightarrow> resource \<Rightarrow> chainState \<Rightarrow> error + chainState" where
  "applyHeaders e key r st =
     (case st of (mws, routerMiddlewares) \<Rightarrow>
        if truthy_str (headers r) \<or> truthy_str (setHostHeader r)
        then (case headersObj e r of
                Inl err \<Rightarrow> Inl err
              | Inr obj \<Rightarrow>
                  if length obj > 0
                  then Inr (Some ((or_empty_map mws)
                                    (headersMiddlewareNameOf key \<mapsto> CustomRequestHeaders obj)),
                            routerMiddlewares @ [headersMiddlewareNameOf key])
                  else Inr (mws, routerMiddlewares))
        else Inr (mws, routerMiddlewares))"

text \<open>The priority, lines 604-623, and the rule, lines 602 and 625-640.\<close>

definition priorityOf :: "resource \<Rightarrow> int" where
  "priorityOf r =
     (if priority r \<noteq> 0 \<and> priority r \<noteq> 100 then priority r
      else if truthy_str (path r) \<and> truthy_str (pathMatchType r) then
        (let p = (100 :: int) + 10;
             q = (if pathMatchType r = Some ''exact'' then p + 5
                  else if pathMatchType r = Some ''prefix'' then p + 3
                  else if pathMatchType r = Some ''regex'' then p + 2
                  else p)
         in if path r = Some ''/'' then 1 else q)
      else 100)"

definition ruleOf :: "resource \<Rightarrow> string" where
  "ruleOf r =
     (let rule = hostRule (tmpl_null (fullDomain r)) in
      if truthy_str (path r) \<and> truthy_str (pathMatchType r) then
        (let p = (if \<not> startsWith (or_empty (path r)) ''/'' then ''/'' @ or_empty (path r)
                  else or_empty (path r))
         in if pathMatchType r = Some ''exact'' then rule @ '' && Path(`'' @ p @ ''`)''
            else if pathMatchType r = Some ''prefix'' then rule @ '' && PathPrefix(`'' @ p @ ''`)''
            else if pathMatchType r = Some ''regex''
              then rule @ '' && PathRegexp(`'' @ or_empty (path r) @ ''`)''
            else rule)
      else rule)"

text \<open>The normal branch, lines 453-767.\<close>

definition chainOf ::
  "env \<Rightarrow> traefik \<Rightarrow> string option \<Rightarrow> resource \<Rightarrow> protocolSection \<Rightarrow> error + chainState" where
  "chainOf e cfg key r h =
     applyHeaders e key r
       (applyRewrite e key r
          (middlewares h,
           badgerMiddlewareName
             # (case additional_middlewares cfg of None \<Rightarrow> [] | Some l \<Rightarrow> l)))"

definition normalRouter :: "traefik \<Rightarrow> string option \<Rightarrow> resource \<Rightarrow> string list \<Rightarrow> router" where
  "normalRouter cfg key r routerMiddlewares =
     \<lparr> router_entryPoints = [if ssl r then https_entrypoint cfg else http_entrypoint cfg],
       router_middlewares = Some routerMiddlewares,
       router_service = serviceNameOf key r,
       router_rule = Some (ruleOf r),
       router_priority = Some (priorityOf r),
       router_tls = (if ssl r then Some (normalTls cfg r) else None) \<rparr>"

definition normalRedirect :: "traefik \<Rightarrow> string option \<Rightarrow> resource \<Rightarrow> router" where
  "normalRedirect cfg key r =
     \<lparr> router_entryPoints = [http_entrypoint cfg],
       router_middlewares = Some [redirectHttpsMiddlewareName],
       router_service = serviceNameOf key r,
       router_rule = Some (ruleOf r),
       router_priority = Some (priorityOf r),
       router_tls = None \<rparr>"

definition normalService :: "string option \<Rightarrow> resource \<Rightarrow> service" where
  "normalService key r =
     \<lparr> lb_servers = httpServers (targets r),
       lb_passHostHeader = None,
       lb_sticky = (if stickySession r then Some (Cookie ''p_sticky'' (ssl r) True) else None),
       lb_serversTransport =
         (if truthy_str (tlsServerName r) then Some (transportNameOf key) else None) \<rparr>"

definition emitNormal ::
  "env \<Rightarrow> traefik \<Rightarrow> string option \<Rightarrow> resource \<Rightarrow> protocolSection
     \<Rightarrow> error + protocolSection" where
  "emitNormal e cfg key r h =
     (case chainOf e cfg key r h of
        Inl err \<Rightarrow> Inl err
      | Inr (mws, routerMiddlewares) \<Rightarrow>
          (let h1 = h\<lparr>middlewares := mws\<rparr>;
               h2 = putRouter (routerNameOf key r)
                      (normalRouter cfg key r routerMiddlewares) h1;
               h3 = (if ssl r
                     then putRouter (routerNameOf key r @ ''-redirect'')
                            (normalRedirect cfg key r) h2
                     else h2);
               h4 = putService (serviceNameOf key r) (normalService key r) h3
           in Inr (if truthy_str (tlsServerName r)
                   then h4\<lparr>serversTransports :=
                             Some ((or_empty_map (serversTransports h4))
                                     (transportNameOf key \<mapsto>
                                        \<lparr> st_serverName = or_empty (tlsServerName r),
                                          st_insecureSkipVerify = True \<rparr>))\<rparr>
                   else h4)))"

text \<open>
  The HTTP branch of the loop body, lines 349-767.  \<^verbatim>\<open>config_output.http\<close> is read without
  a test; were it absent the read of \<^verbatim>\<open>.routers\<close> would raise.
\<close>

definition processHttp ::
  "env \<Rightarrow> traefik \<Rightarrow> string option \<Rightarrow> resource \<Rightarrow> document \<Rightarrow> error + document" where
  "processHttp e cfg key r doc =
     (if \<not> truthy_str (domainId r) \<or> \<not> truthy_str (fullDomain r) then Inr doc
      else case doc ''http'' of
             None \<Rightarrow> Inl TypeError
           | Some h \<Rightarrow>
               (let h1 = h\<lparr>routers := Some (or_empty_map (routers h)),
                            services := Some (or_empty_map (services h))\<rparr>
                in if showMaintenancePage r
                   then Inr (doc(''http'' \<mapsto> emitMaintenance cfg key r h1))
                   else (case emitNormal e cfg key r h1 of
                           Inl err \<Rightarrow> Inl err
                         | Inr h2 \<Rightarrow> Inr (doc(''http'' \<mapsto> h2)))))"

section \<open>Emission for one TCP/UDP route group\<close>

text \<open>Lines 769-866.\<close>

definition rawRouter :: "string \<Rightarrow> string option \<Rightarrow> resource \<Rightarrow> router" where
  "rawRouter proto key r =
     \<lparr> router_entryPoints = [proto @ ''-'' @ tmpl_num (proxyPort r)],
       router_middlewares = None,
       router_service = serviceNameOf key r,
       router_rule = (if proto = ''tcp'' then Some ''HostSNI(`*`)'' else None),
       router_priority = None,
       router_tls = None \<rparr>"

definition rawService :: "traefik \<Rightarrow> string \<Rightarrow> resource \<Rightarrow> service" where
  "rawService cfg proto r =
     \<lparr> lb_servers = rawServers (targets r),
       lb_passHostHeader = None,
       lb_sticky = (if stickySession r then Some (IpStrategy 0 True) else None),
       lb_serversTransport =
         (if proxyProtocol r \<and> proto = ''tcp''
          then Some (pp_transport_prefix cfg
                 @ num_str (if proxyProtocolVersion r \<noteq> 0 then proxyProtocolVersion r else 1)
                 @ ''@file'')
          else None) \<rparr>"

text \<open>
  \<^verbatim>\<open>config_output\<close> is a plain object, so \<^verbatim>\<open>config_output[protocol]\<close> also finds the
  properties it inherits from \<^verbatim>\<open>Object.prototype\<close>.  All of them are truthy and none has
  \<^verbatim>\<open>routers\<close>: for such a protocol name no section is created and the write to
  \<^verbatim>\<open>.routers[routerName]\<close> raises.
\<close>

definition objectPrototypeNames :: "string list" where
  "objectPrototypeNames =
     [''constructor'', ''__defineGetter__'', ''__defineSetter__'', ''hasOwnProperty'',
      ''__lookupGetter__'', ''__lookupSetter__'', ''isPrototypeOf'', ''propertyIsEnumerable'',
      ''toString'', ''valueOf'', ''__proto__'', ''toLocaleString'']"

definition processRaw ::
  "traefik \<Rightarrow> string option \<Rightarrow> resource \<Rightarrow> document \<Rightarrow> error + document" where
  "processRaw cfg key r doc =
     (if \<not> truthy_bool (enableProxy r) \<or> \<not> truthy_num (proxyPort r) then Inr doc
      else
        (let proto = toLowerCase (protocol r) in
         if doc proto = None \<and> proto \<in> set objectPrototypeNames then Inl TypeError
         else
           (let sec = (case doc proto of
                         None \<Rightarrow> \<lparr> routers = Some Map.empty, services = Some Map.empty,
                                    middlewares = None, serversTransports = None \<rparr>
                       | Some s \<Rightarrow> s)
            in case routers sec of
                 None \<Rightarrow> Inl TypeError
               | Some rs \<Rightarrow>
                   (case services sec of
                      None \<Rightarrow> Inl TypeError
                    | Some ss \<Rightarrow>
                        Inr (doc(proto \<mapsto>
                          sec\<lparr>routers :=
                                 Some (rs(routerNameOf key r \<mapsto> rawRouter proto key r)),
                               services :=
                                 Some (ss(serviceNameOf key r \<mapsto> rawService cfg proto r))\<rparr>))))))"

section \<open>The synthesizer\<close>

text \<open>The loop body, lines 335-867, and the loop, which stops at the first exception.\<close>

definition processGroup ::
  "env \<Rightarrow> traefik \<Rightarrow> string option \<times> resource \<Rightarrow> document \<Rightarrow> error + document" where
  "processGroup e cfg kr doc =
     (case kr of (key, r) \<Rightarrow>
        if \<not> enabled r then Inr doc
        else if http r then processHttp e cfg key r doc
        else processRaw cfg key r doc)"

fun processGroups ::
  "env \<Rightarrow> traefik \<Rightarrow> resourcesMap \<Rightarrow> document \<Rightarrow> error + document" where
  "processGroups e cfg [] doc = Inr doc"
| "processGroups e cfg (kr # rest) doc =
     (case processGroup e cfg kr doc of
        Inl err \<Rightarrow> Inl err
      | Inr doc' \<Rightarrow> processGroups e cfg rest doc')"

text \<open>The initial \<^verbatim>\<open>config_output\<close>, lines 322-332.\<close>

definition config_output :: document where
  "config_output =
     [''http'' \<mapsto>
        \<lparr> routers = None, services = None,
          middlewares =
            Some [redirectHttpsMiddlewareName \<mapsto> RedirectScheme ''https''],
          serversTransports = None \<rparr>]"

text \<open>
  \<^verbatim>\<open>getTraefikConfig\<close> on the rows its query returned, lines 226-869.  The empty object is
  the empty map.
\<close>

definition getTraefikConfig :: "env \<Rightarrow> traefik \<Rightarrow> row list \<Rightarrow> error + document" where
  "getTraefikConfig e cfg rows =
     (if length (aggregate e rows) = 0 then Inr Map.empty
      else processGroups e cfg (aggregate e rows) config_output)"

section \<open>Reading the result\<close>

text \<open>
  The HTTP routers of a result (none when the call raised or the document has no
  \<^verbatim>\<open>http.routers\<close>), and whether the call returned a document.
\<close>

definition httpRouters :: "error + document \<Rightarrow> (string \<rightharpoonup> router)" where
  "httpRouters res =
     (case res of
        Inl _ \<Rightarrow> Map.empty
      | Inr doc \<Rightarrow> (case doc ''http'' of None \<Rightarrow> Map.empty | Some h \<Rightarrow> or_empty_map (routers h)))"

definition returnsDocument :: "error + document \<Rightarrow> bool" where
  "returnsDocument res = (case res of Inl _ \<Rightarrow> False | Inr _ \<Rightarrow> True)"

text \<open>
  Whether a result is a document whose \<^verbatim>\<open>http.middlewares\<close> has the key
  \<^verbatim>\<open>redirect-to-https\<close>.
\<close>

definition definesKey :: "'k \<Rightarrow> ('k \<rightharpoonup> 'v) option \<Rightarrow> bool" where
  "definesKey k mo = (case mo of None \<Rightarrow> False | Some m \<Rightarrow> m k \<noteq> None)"

definition definesRedirect :: "error + document \<Rightarrow> bool" where
  "definesRedirect res =
     (case res of
        Inl _ \<Rightarrow> False
      | Inr doc \<Rightarrow>
          (case doc ''http'' of
             None \<Rightarrow> False
           | Some h \<Rightarrow> definesKey redirectHttpsMiddlewareName (middlewares h)))"

text \<open>
  The router names under which the loop body can write for one group: the normal router,
  the maintenance router, and the redirect twin of each.
\<close>

definition routerNamesOf :: "string option \<times> resource \<Rightarrow> string list" where
  "routerNamesOf kr =
     (case kr of (key, r) \<Rightarrow>
        [routerNameOf key r, routerNameOf key r @ ''-redirect'',
         maintenanceRouterNameOf key, maintenanceRouterNameOf key @ ''-redirect''])"

section \<open>A reference for the duplicate filter\<close>

text \<open>
  First-seen deduplication written as a plain recursion over the entries seen so far; the
  index-based filter of the source is compared with it below.
\<close>

fun firstUrls :: "server option list \<Rightarrow> server option list \<Rightarrow> server option list" where
  "firstUrls seen [] = []"
| "firstUrls seen (v # rest) =
     (if (\<forall>t \<in> set seen. \<not> sameUrl t v) \<and> sameUrl v v
      then v # firstUrls (seen @ [v]) rest
      else firstUrls (seen @ [v]) rest)"


section \<open>Example inputs\<close>

text \<open>
  The target of the example in the specification (local site, address 10.0.0.5, port 8080,
  method http, enabled), and variations of it.
\<close>

definition localSite :: site where
  "localSite = \<lparr> site_siteId = 1, site_type = ''local'', site_subnet = None,
                  site_exitNodeId = Some 1, site_online = True \<rparr>"

definition localTarget :: target where
  "localTarget = \<lparr> target_resourceId = 1, target_targetId = 1, target_ip = Some ''10.0.0.5'',
      target_method = Some ''http'', target_port = Some 8080, target_internalPort = None,
      target_enabled = True, target_site = localSite \<rparr>"

definition secondTarget :: target where
  "secondTarget = localTarget\<lparr>target_targetId := 2\<rparr>"

definition offlineTarget :: target where
  "offlineTarget = localTarget\<lparr>target_targetId := 3, target_ip := Some ''10.0.0.6'',
      target_site := localSite\<lparr>site_siteId := 2, site_online := False\<rparr>\<rparr>"

definition offlineTarget2 :: target where
  "offlineTarget2 = offlineTarget\<lparr>target_targetId := 4, target_ip := Some ''10.0.0.7''\<rparr>"

definition otherTarget :: target where
  "otherTarget = localTarget\<lparr>target_site := localSite\<lparr>site_type := ''other''\<rparr>\<rparr>"

text \<open>
  Stand-ins for the collaborators and the process configuration, and the resource of the
  example in the specification: HTTP, SSL on, domain example.com, one local target.
\<close>

definition stubEnv :: env where
  "stubEnv =
     \<lparr> sanitize = (\<lambda>s. if truthy_str s then s else None),
       validatePathRewriteConfig = (\<lambda>_ _ _ _. True),
       createPathRewriteMiddleware = (\<lambda>_ _ _ _ _. None),
       parseHeaders = (\<lambda>_. None) \<rparr>"

definition exampleTraefik :: traefik where
  "exampleTraefik =
     \<lparr> maintenance_port = None, maintenance_host = None,
       http_entrypoint = ''web'', https_entrypoint = ''websecure'',
       cert_resolver = ''letsencrypt'', prefer_wildcard_cert = False,
       additional_middlewares = None, pp_transport_prefix = ''pp-transport-v'' \<rparr>"

definition exampleResource :: resource where
  "exampleResource =
     \<lparr> resourceId = 1, name = ''app'', fullDomain = Some ''example.com'', ssl = True,
       http = True, proxyPort = None, protocol = ''tcp'', subdomain = None,
       domainId = Some ''domain1'', enabled = True, stickySession = False,
       tlsServerName = None, setHostHeader = None, enableProxy = Some True,
       targets = [localTarget], headers = None, proxyProtocol = False,
       proxyProtocolVersion = 1, path = None, pathMatchType = None, rewritePath = None,
       rewritePathType = None, priority = 100, domainCertResolver = None,
       maintenanceModeEnabled = False, maintenanceModeType = None, maintenanceTitle = None,
       maintenanceMessage = None, maintenanceEstimatedTime = None \<rparr>"


definition forcedResource :: resource where
  "forcedResource =
     exampleResource\<lparr>maintenanceModeEnabled := True, maintenanceModeType := Some ''forced''\<rparr>"

definition automaticResource :: resource where
  "automaticResource =
     exampleResource\<lparr>maintenanceModeEnabled := True, maintenanceModeType := Some ''automatic''\<rparr>"

definition automaticDownResource :: resource where
  "automaticDownResource =
     automaticResource\<lparr>targets := [localTarget\<lparr>target_method := None\<rparr>]\<rparr>"

definition webResource :: resource where
  "webResource =
     exampleResource\<lparr>resourceId := 2, name := ''web'', fullDomain := Some ''web.example.com'',
                      targets := [localTarget\<lparr>target_resourceId := 2\<rparr>]\<rparr>"

definition initialHttp :: protocolSection where
  "initialHttp =
     \<lparr> routers = None, services = None,
       middlewares = Some [redirectHttpsMiddlewareName \<mapsto> RedirectScheme ''https''],
       serversTransports = None \<rparr>"


text \<open>
  The row of that example; variants of it in maintenance mode (forced, automatic,
  automatic with a target that has no method, forced without domain id); a row of a second
  resource; a TCP variant; a variant without domain id; and two rows of one resource with
  different rewrite settings.
\<close>

definition exampleRow :: row where
  "exampleRow =
     \<lparr> row_resourceId = 1, row_resourceName = ''app'',
       row_fullDomain = Some ''example.com'', row_ssl = True, row_http = True,
       row_proxyPort = None, row_protocol = ''tcp'', row_subdomain = None,
       row_domainId = Some ''domain1'', row_enabled = True, row_stickySession = False,
       row_tlsServerName = None, row_setHostHeader = None, row_enableProxy = Some True,
       row_headers = None, row_proxyProtocol = False, row_proxyProtocolVersion = None,
       row_maintenanceModeEnabled = False, row_maintenanceModeType = None,
       row_maintenanceTitle = None, row_maintenanceMessage = None,
       row_maintenanceEstimatedTime = None,
       row_targetId = 1, row_targetEnabled = True, row_ip = Some ''10.0.0.5'',
       row_method = Some ''http'', row_port = Some 8080, row_internalPort = None,
       row_hcHealth = None, row_path = None, row_pathMatchType = None,
       row_rewritePath = None, row_rewritePathType = None, row_priority = Some 100,
       row_siteId = 1, row_siteType = ''local'', row_siteOnline = True,
       row_subnet = None, row_exitNodeId = Some 1, row_domainCertResolver = None \<rparr>"

definition forcedRow :: row where
  "forcedRow =
     exampleRow\<lparr>row_maintenanceModeEnabled := True, row_maintenanceModeType := Some ''forced''\<rparr>"

definition automaticRow :: row where
  "automaticRow =
     exampleRow\<lparr>row_maintenanceModeEnabled := True,
                 row_maintenanceModeType := Some ''automatic''\<rparr>"

definition automaticDownRow :: row where
  "automaticDownRow = automaticRow\<lparr>row_method := None\<rparr>"

definition forcedNoDomainRow :: row where
  "forcedNoDomainRow = forcedRow\<lparr>row_domainId := None\<rparr>"

definition webRow :: row where
  "webRow =
     exampleRow\<lparr>row_resourceId := 2, row_resourceName := ''web'',
                 row_fullDomain := Some ''web.example.com''\<rparr>"

definition tcpRow :: row where
  "tcpRow = exampleRow\<lparr>row_http := False, row_proxyPort := Some 5432,
                        row_fullDomain := None, row_domainId := None\<rparr>"

definition noDomainRow :: row where
  "noDomainRow = exampleRow\<lparr>row_domainId := None\<rparr>"

definition rewriteRow :: row where
  "rewriteRow =
     exampleRow\<lparr>row_path := Some ''/api'', row_pathMatchType := Some ''prefix'',
                 row_rewritePath := Some ''/new'', row_rewritePathType := Some ''prefix''\<rparr>"

definition dashedRewriteRow :: row where
  "dashedRewriteRow =
     exampleRow\<lparr>row_targetId := 2,
                 row_path := Some ''/api'', row_pathMatchType := Some ''prefix'',
                 row_rewritePath := Some ''/new-prefix'', row_rewritePathType := None\<rparr>"

section \<open>Evaluation lemmas\<close>

lemma findIndex_at_prefix_length:
  "(findIndex p (pre @ x # xs) = int (length pre)) = ((\<forall>t \<in> set pre. \<not> p t) \<and> p x)"
  by (induction pre) (auto simp: Let_def)

lemma filter_indexed_from:
  "map fst (filter (\<lambda>(v, i). firstOfItsUrl v i (pre @ xs))
              (zip xs [length pre..<length pre + length xs]))
   = firstUrls pre xs"
proof (induction xs arbitrary: pre)
  case Nil
  show ?case by simp
next
  case (Cons x xs)
  have "[length pre..<length pre + length (x # xs)]
        = length pre # [Suc (length pre)..<length pre + length (x # xs)]"
    by (rule upt_conv_Cons) simp
  then have upt: "[length pre..<length pre + length (x # xs)]
             = length pre # [length (pre @ [x])..<length (pre @ [x]) + length xs]"
    by simp
  have keep: "firstOfItsUrl x (length pre) (pre @ x # xs)
              = ((\<forall>t \<in> set pre. \<not> sameUrl t x) \<and> sameUrl x x)"
    unfolding firstOfItsUrl_def by (rule findIndex_at_prefix_length)
  have ih: "map fst (filter (\<lambda>(v, i). firstOfItsUrl v i (pre @ x # xs))
              (zip xs [length (pre @ [x])..<length (pre @ [x]) + length xs]))
            = firstUrls (pre @ [x]) xs"
    using Cons.IH [of "pre @ [x]"] by simp
  show ?case
    unfolding upt using keep ih by simp
qed

lemma filter_indexed_firstUrls: "filter_indexed firstOfItsUrl a = firstUrls [] a"
  using filter_indexed_from [of "[]" a] by (simp add: filter_indexed_def)



lemmas example_targets =
  localSite_def localTarget_def secondTarget_def offlineTarget_def offlineTarget2_def
  otherTarget_def

lemmas truthy_defs = truthy_str_def truthy_num_def truthy_bool_def

lemma num_str_8080: "num_str 8080 = ''8080''"
  by (simp add: num_str_def digits_of.simps digit_char_def)

lemma sameUrl_simps:
  "sameUrl None v = False"
  "sameUrl t None = False"
  "sameUrl (Some (Url a)) (Some (Url b)) = (a = b)"
  by (simp_all add: sameUrl_def url_def split: option.splits)

lemma httpServerOf_cases: "httpServerOf t = None \<or> (\<exists>u. httpServerOf t = Some (Url u))"
  by (simp add: httpServerOf_def)

lemma isAvailable_iff_httpKeep:
  "isAvailable ts t = (httpKeep ts t \<and> httpServerOf t \<noteq> None)"
  by (simp add: isAvailable_def httpKeep_def httpServerOf_def)

lemma isAvailable_eq_httpKeep:
  "site_type (target_site t) \<in> {''local'', ''wireguard'', ''newt''} \<Longrightarrow>
   isAvailable ts t = httpKeep ts t"
  by (auto simp: isAvailable_def httpKeep_def)

section \<open>Availability against backend selection\<close>

text \<open>
  C2 asks that the predicate behind \<^verbatim>\<open>availableServers\<close> and the filter of the HTTP server
  list accept the same targets, whatever the site type.  They agree on the site types local,
  wireguard and newt (\<open>isAvailable_eq_httpKeep\<close>).  On an enabled target whose site type is
  none of these the availability predicate ends in \<^verbatim>\<open>return false\<close> while the backend
  filter falls through to \<^verbatim>\<open>return true\<close>: the group below has no available server, yet
  its one target passes the backend filter.
\<close>

theorem availability_differs_from_backend_filter:
  "availableServers [otherTarget] = []
   \<and> filter (httpKeep [otherTarget]) [otherTarget] = [otherTarget]"
  by (simp add: availableServers_def isAvailable_def httpKeep_def anySitesOnline_def
      example_targets)

section \<open>Deduplication of servers\<close>

text \<open>
  C5 asks that two eligible targets with the same endpoint give one server entry, for HTTP
  and TCP/UDP services alike.  The HTTP list ends with the duplicate filter; the TCP/UDP
  list has no such step, so two targets at 10.0.0.5:8080 give two equal entries there and
  one entry in the HTTP list.
\<close>

theorem raw_servers_keep_duplicates:
  "rawServers [localTarget, secondTarget]
     = [Some (Address ''10.0.0.5:8080''), Some (Address ''10.0.0.5:8080'')]
   \<and> httpServers [localTarget, secondTarget] = [Some (Url ''http://10.0.0.5:8080'')]"
  by (simp add: rawServers_def rawKeep_def rawServerOf_def httpServers_def httpKeep_def
      httpServerOf_def filter_indexed_firstUrls sameUrl_simps anySitesOnline_def
      example_targets truthy_defs tmpl_null_def tmpl_num_def num_str_8080)





section \<open>Site-online preference\<close>

lemma anySitesOnline_iff: "anySitesOnline ts = (\<exists>t \<in> set ts. site_online (target_site t))"
  by (simp add: anySitesOnline_def list_ex_iff)
















section \<open>Router priority\<close>




section \<open>TLS policy\<close>

text \<open>
  C6 asks that a defined resource-level wildcard preference wins over the process-wide
  default.  The loop implements that rule on \<^verbatim>\<open>resource.preferWildcardCert\<close>, but no group
  carries the property, so the wildcard domain list of both TLS blocks follows
  \<^verbatim>\<open>prefer_wildcard_cert\<close> alone, for every resource.
\<close>

theorem wildcard_follows_process_default:
  "tls_domains (normalTls cfg r) = (if prefer_wildcard_cert cfg then Some [wildCard r] else None)
   \<and> tls_domains (maintenanceTls cfg r)
       = (if prefer_wildcard_cert cfg then Some [maintenanceWildCard r] else None)"
  by (simp add: normalTls_def maintenanceTls_def preferWildcard_def preferWildcardCert_def
      nullish_def)

lemma tls_blocks_agree:
  assumes "truthy_str (fullDomain r)"
    and "\<not> truthy_str (subdomain r) \<or> 2 < length (split_on CHR ''.'' (or_empty (fullDomain r)))"
    and "domainCertResolver r = None \<or> domainCertResolver r = Some []
         \<or> trim (or_empty (domainCertResolver r)) \<noteq> []"
  shows "maintenanceTls cfg r = normalTls cfg r"
proof -
  from assms(1) have fd: "tmpl_null (fullDomain r) = or_empty (fullDomain r)"
    by (simp add: truthy_str_def tmpl_null_def or_empty_def split: option.splits)
  have w: "maintenanceWildCard r = wildCard r"
    using assms(2) by (auto simp: maintenanceWildCard_def wildCard_def fd Let_def)
  have c: "tls_certResolver (maintenanceTls cfg r) = resolverName cfg r"
    using assms(3)
    by (auto simp: maintenanceTls_def resolverName_def truthy_str_def or_empty_def trim_def
        split: option.splits)
  show ?thesis
    using w c
    by (simp add: maintenanceTls_def normalTls_def preferWildcard_def preferWildcardCert_def
        nullish_def)
qed

text \<open>
  C7 asks that the TLS block of the maintenance router equals that of the normal router.
  They agree under the conditions of \<open>tls_blocks_agree\<close>.  For a resource with a subdomain
  whose full domain has two labels the normal branch keeps the whole domain under the
  wildcard, while the maintenance branch has no such case and strips the first label.  For a
  domain resolver that is white space only the maintenance branch falls back to the
  process-wide resolver and the normal branch uses the empty trimmed text.
\<close>

theorem maintenance_tls_differs_on_two_labels:
  "maintenanceTls (exampleTraefik\<lparr>prefer_wildcard_cert := True\<rparr>)
      (exampleResource\<lparr>fullDomain := Some ''app.localhost'', subdomain := Some ''app''\<rparr>)
     = \<lparr> tls_certResolver = ''letsencrypt'', tls_domains = Some [''*.localhost''] \<rparr>
   \<and> normalTls (exampleTraefik\<lparr>prefer_wildcard_cert := True\<rparr>)
      (exampleResource\<lparr>fullDomain := Some ''app.localhost'', subdomain := Some ''app''\<rparr>)
     = \<lparr> tls_certResolver = ''letsencrypt'', tls_domains = Some [''*.app.localhost''] \<rparr>
   \<and> tls_certResolver (maintenanceTls exampleTraefik
        (exampleResource\<lparr>domainCertResolver := Some '' ''\<rparr>)) = ''letsencrypt''
   \<and> tls_certResolver (normalTls exampleTraefik
        (exampleResource\<lparr>domainCertResolver := Some '' ''\<rparr>)) = ''''"
  by (simp add: maintenanceTls_def normalTls_def maintenanceWildCard_def wildCard_def
      resolverName_def preferWildcard_def preferWildcardCert_def nullish_def
      exampleTraefik_def exampleResource_def truthy_str_def or_empty_def tmpl_null_def
      trim_def is_space_def)


section \<open>One step of the loop\<close>

lemma or_empty_map_simps [simp]:
  "or_empty_map (Some m) = m" "or_empty_map None = Map.empty"
  by (simp_all add: or_empty_map_def)

lemma routers_putRouter [simp]:
  "or_empty_map (routers (putRouter n v h)) = (or_empty_map (routers h))(n \<mapsto> v)"
  by (simp add: putRouter_def or_empty_map_def)

lemma routers_putService [simp]: "routers (putService n v h) = routers h"
  by (simp add: putService_def)

lemma routers_emitMaintenance:
  "or_empty_map (routers (emitMaintenance cfg key r h)) =
     (if ssl r
      then (or_empty_map (routers h))
             (maintenanceRouterNameOf key \<mapsto> maintenanceRouter cfg key r,
              maintenanceRouterNameOf key @ ''-redirect'' \<mapsto> maintenanceRedirect cfg key r)
      else (or_empty_map (routers h))
             (maintenanceRouterNameOf key \<mapsto> maintenanceRouter cfg key r))"
  by (simp add: emitMaintenance_def Let_def)

lemma middlewares_emitMaintenance: "middlewares (emitMaintenance cfg key r h) = middlewares h"
  by (simp add: emitMaintenance_def putRouter_def putService_def Let_def)

lemma emitNormal_Inr:
  assumes "emitNormal e cfg key r h = Inr h'"
  obtains mws ms where "chainOf e cfg key r h = Inr (mws, ms)"
    and "middlewares h' = mws"
    and "or_empty_map (routers h') =
           (if ssl r
            then (or_empty_map (routers h))
                   (routerNameOf key r \<mapsto> normalRouter cfg key r ms,
                    routerNameOf key r @ ''-redirect'' \<mapsto> normalRedirect cfg key r)
            else (or_empty_map (routers h))
                   (routerNameOf key r \<mapsto> normalRouter cfg key r ms))"
proof (cases "chainOf e cfg key r h")
  case (Inl err)
  with assms show ?thesis by (simp add: emitNormal_def)
next
  case (Inr st)
  obtain mws ms where st: "st = (mws, ms)" by (cases st)
  from assms Inr st have h': "h' =
      (let h1 = h\<lparr>middlewares := mws\<rparr>;
           h2 = putRouter (routerNameOf key r) (normalRouter cfg key r ms) h1;
           h3 = (if ssl r
                 then putRouter (routerNameOf key r @ ''-redirect'')
                        (normalRedirect cfg key r) h2
                 else h2);
           h4 = putService (serviceNameOf key r) (normalService key r) h3
       in if truthy_str (tlsServerName r)
          then h4\<lparr>serversTransports :=
                    Some ((or_empty_map (serversTransports h4))
                            (transportNameOf key \<mapsto>
                               \<lparr> st_serverName = or_empty (tlsServerName r),
                                 st_insecureSkipVerify = True \<rparr>))\<rparr>
          else h4)"
    by (simp add: emitNormal_def Let_def)
  have m: "middlewares h' = mws"
    unfolding h' by (simp add: Let_def putRouter_def putService_def)
  have rs: "or_empty_map (routers h') =
           (if ssl r
            then (or_empty_map (routers h))
                   (routerNameOf key r \<mapsto> normalRouter cfg key r ms,
                    routerNameOf key r @ ''-redirect'' \<mapsto> normalRedirect cfg key r)
            else (or_empty_map (routers h))
                   (routerNameOf key r \<mapsto> normalRouter cfg key r ms))"
    unfolding h' by (simp add: Let_def)
  from that [OF _ m rs] Inr st show ?thesis by simp
qed

lemma emitNormal_returns:
  "chainOf e cfg key r h = Inr st \<Longrightarrow> \<exists>h'. emitNormal e cfg key r h = Inr h'"
  by (cases st) (simp add: emitNormal_def Let_def)

text \<open>The middleware list of the router does not depend on the document built so far.\<close>

lemma applyRewrite_snd:
  "snd (applyRewrite e key r (m, c)) = snd (applyRewrite e key r (m', c))"
proof -
  let ?res = "createPathRewriteMiddleware e
                (''rewrite-r'' @ num_str (resourceId r) @ ''-'' @ tmpl_undefined key)
                (or_empty (path r)) (or_empty (pathMatchType r))
                (or_empty (rewritePath r)) (or_empty (rewritePathType r))"
  show ?thesis
    by (cases ?res) (auto simp: applyRewrite_def Let_def)
qed

lemma applyHeaders_snd:
  assumes "applyHeaders e key r (m, c) = Inr st"
  shows "\<exists>st'. applyHeaders e key r (m', c) = Inr st' \<and> snd st' = snd st"
proof (cases "truthy_str (headers r) \<or> truthy_str (setHostHeader r)")
  case False
  with assms show ?thesis by (auto simp: applyHeaders_def)
next
  case True
  show ?thesis
  proof (cases "headersObj e r")
    case (Inl err)
    with assms True show ?thesis by (simp add: applyHeaders_def)
  next
    case (Inr obj)
    with assms True show ?thesis
      by (cases "0 < length obj") (auto simp: applyHeaders_def)
  qed
qed

lemma chainOf_snd:
  assumes "chainOf e cfg key r h = Inr st"
  shows "\<exists>st'. chainOf e cfg key r h' = Inr st' \<and> snd st' = snd st"
proof -
  let ?c = "badgerMiddlewareName
             # (case additional_middlewares cfg of None \<Rightarrow> [] | Some l \<Rightarrow> l)"
  obtain m1 c1 where a: "applyRewrite e key r (middlewares h, ?c) = (m1, c1)"
    by (cases "applyRewrite e key r (middlewares h, ?c)")
  obtain m2 c2 where b: "applyRewrite e key r (middlewares h', ?c) = (m2, c2)"
    by (cases "applyRewrite e key r (middlewares h', ?c)")
  have c: "c2 = c1"
    using applyRewrite_snd [of e key r "middlewares h" ?c "middlewares h'"] a b by simp
  from assms a have "applyHeaders e key r (m1, c1) = Inr st"
    by (simp add: chainOf_def)
  from applyHeaders_snd [OF this, of m2] b c show ?thesis
    by (simp add: chainOf_def)
qed

lemma chainOf_returns:
  assumes "headersObj e r = Inr obj"
  shows "\<exists>st. chainOf e cfg key r h = Inr st"
proof -
  let ?c = "badgerMiddlewareName
             # (case additional_middlewares cfg of None \<Rightarrow> [] | Some l \<Rightarrow> l)"
  obtain m1 c1 where a: "applyRewrite e key r (middlewares h, ?c) = (m1, c1)"
    by (cases "applyRewrite e key r (middlewares h, ?c)")
  show ?thesis
    unfolding chainOf_def a using assms by (simp add: applyHeaders_def)
qed

lemma showMaintenancePage_forced:
  "maintenanceModeEnabled r \<Longrightarrow> maintenanceModeType r = Some ''forced'' \<Longrightarrow> showMaintenancePage r"
  by (simp add: showMaintenancePage_def)

lemma showMaintenancePage_automatic:
  "maintenanceModeEnabled r \<Longrightarrow> maintenanceModeType r = Some ''automatic'' \<Longrightarrow>
   showMaintenancePage r = (availableServers (targets r) = [])"
  by (simp add: showMaintenancePage_def hasHealthyServers_def)

lemma showMaintenancePage_disabled:
  "\<not> maintenanceModeEnabled r \<Longrightarrow> \<not> showMaintenancePage r"
  by (simp add: showMaintenancePage_def)

lemma httpRouters_Inr:
  "doc ''http'' = Some h \<Longrightarrow> httpRouters (Inr doc) = or_empty_map (routers h)"
  by (simp add: httpRouters_def)

lemma config_output_http: "config_output ''http'' = Some initialHttp"
  by (simp add: config_output_def initialHttp_def)

lemma httpRouters_config_output: "httpRouters (Inr config_output) n = None"
  by (simp add: httpRouters_def config_output_http initialHttp_def)

text \<open>A group that is skipped leaves the document as it is.\<close>

lemma processGroup_skipped:
  assumes "http r" and "\<not> (enabled r \<and> truthy_str (domainId r) \<and> truthy_str (fullDomain r))"
  shows "processGroup e cfg (key, r) doc = Inr doc"
  using assms by (cases "enabled r") (simp_all add: processGroup_def processHttp_def)

text \<open>The maintenance branch and the normal branch of an HTTP group that is not skipped.\<close>

lemma processGroup_maintenance:
  assumes "enabled r" "http r" "truthy_str (domainId r)" "truthy_str (fullDomain r)"
    and "doc ''http'' = Some h" and "showMaintenancePage r"
  shows "processGroup e cfg (key, r) doc =
           Inr (doc(''http'' \<mapsto>
                  emitMaintenance cfg key r
                    (h\<lparr>routers := Some (or_empty_map (routers h)),
                       services := Some (or_empty_map (services h))\<rparr>)))"
  using assms by (simp add: processGroup_def processHttp_def Let_def)

lemma processGroup_normal:
  assumes "enabled r" "http r" "truthy_str (domainId r)" "truthy_str (fullDomain r)"
    and "doc ''http'' = Some h" and "\<not> showMaintenancePage r"
  shows "processGroup e cfg (key, r) doc =
           (case emitNormal e cfg key r
                   (h\<lparr>routers := Some (or_empty_map (routers h)),
                      services := Some (or_empty_map (services h))\<rparr>) of
              Inl err \<Rightarrow> Inl err
            | Inr h2 \<Rightarrow> Inr (doc(''http'' \<mapsto> h2)))"
  using assms by (simp add: processGroup_def processHttp_def Let_def)

lemma httpRouters_maintenance:
  assumes "enabled r" "http r" "truthy_str (domainId r)" "truthy_str (fullDomain r)"
    and "doc ''http'' = Some h" and "showMaintenancePage r"
  shows "\<exists>doc'. processGroup e cfg (key, r) doc = Inr doc'
           \<and> httpRouters (Inr doc') =
               (if ssl r
                then (httpRouters (Inr doc))
                       (maintenanceRouterNameOf key \<mapsto> maintenanceRouter cfg key r,
                        maintenanceRouterNameOf key @ ''-redirect''
                          \<mapsto> maintenanceRedirect cfg key r)
                else (httpRouters (Inr doc))
                       (maintenanceRouterNameOf key \<mapsto> maintenanceRouter cfg key r))"
proof -
  let ?h1 = "h\<lparr>routers := Some (or_empty_map (routers h)),
               services := Some (or_empty_map (services h))\<rparr>"
  have new: "httpRouters (Inr (doc(''http'' \<mapsto> emitMaintenance cfg key r ?h1)))
               = or_empty_map (routers (emitMaintenance cfg key r ?h1))"
    by (simp add: httpRouters_def)
  show ?thesis
    unfolding processGroup_maintenance [where doc = doc and e = e and cfg = cfg, OF assms]
      httpRouters_Inr [where doc = doc and h = h, OF assms(5)]
    by (simp add: new routers_emitMaintenance)
qed

lemma httpRouters_normal:
  assumes "enabled r" "http r" "truthy_str (domainId r)" "truthy_str (fullDomain r)"
    and "doc ''http'' = Some h" and "\<not> showMaintenancePage r"
    and "processGroup e cfg (key, r) doc = Inr doc'"
  shows "\<exists>st. chainOf e cfg key r h = Inr st
           \<and> httpRouters (Inr doc') =
               (if ssl r
                then (httpRouters (Inr doc))
                       (routerNameOf key r \<mapsto> normalRouter cfg key r (snd st),
                        routerNameOf key r @ ''-redirect'' \<mapsto> normalRedirect cfg key r)
                else (httpRouters (Inr doc))
                       (routerNameOf key r \<mapsto> normalRouter cfg key r (snd st)))"
proof -
  let ?h1 = "h\<lparr>routers := Some (or_empty_map (routers h)),
               services := Some (or_empty_map (services h))\<rparr>"
  note pg = processGroup_normal [where doc = doc and e = e and cfg = cfg and key = key,
      OF assms(1-6)]
  from assms(7) obtain h2 where h2: "emitNormal e cfg key r ?h1 = Inr h2"
    and doc': "doc' = doc(''http'' \<mapsto> h2)"
    unfolding pg by (cases "emitNormal e cfg key r ?h1") simp_all
  from emitNormal_Inr [OF h2] obtain mws ms
    where c1: "chainOf e cfg key r ?h1 = Inr (mws, ms)"
      and rs: "or_empty_map (routers h2) =
           (if ssl r
            then (or_empty_map (routers ?h1))
                   (routerNameOf key r \<mapsto> normalRouter cfg key r ms,
                    routerNameOf key r @ ''-redirect'' \<mapsto> normalRedirect cfg key r)
            else (or_empty_map (routers ?h1))
                   (routerNameOf key r \<mapsto> normalRouter cfg key r ms))"
    by blast
  from chainOf_snd [OF c1, of h] obtain st where st: "chainOf e cfg key r h = Inr st"
    and sn: "snd st = ms" by auto
  have new: "httpRouters (Inr doc') = or_empty_map (routers h2)"
    unfolding doc' by (simp add: httpRouters_def)
  have "httpRouters (Inr doc') =
               (if ssl r
                then (httpRouters (Inr doc))
                       (routerNameOf key r \<mapsto> normalRouter cfg key r (snd st),
                        routerNameOf key r @ ''-redirect'' \<mapsto> normalRedirect cfg key r)
                else (httpRouters (Inr doc))
                       (routerNameOf key r \<mapsto> normalRouter cfg key r (snd st)))"
    unfolding new rs httpRouters_Inr [where doc = doc and h = h, OF assms(5)] sn by simp
  with st show ?thesis by blast
qed


section \<open>The document through the loop\<close>

lemma definesKey_simps [simp]:
  "definesKey k None = False" "definesKey k (Some m) = (m k \<noteq> None)"
  by (simp_all add: definesKey_def)

lemma assign_keeps: "m k \<noteq> None \<Longrightarrow> assign m kvs k \<noteq> None"
  unfolding assign_def
  by (induction kvs arbitrary: m) (simp_all add: case_prod_beta)

lemma applyRewrite_keeps:
  "definesKey k (fst st) \<Longrightarrow> definesKey k (fst (applyRewrite e key r st))"
proof (cases st)
  case (Pair mws chain)
  assume "definesKey k (fst st)"
  with Pair obtain m where m: "mws = Some m" "m k \<noteq> None"
    by (cases mws) simp_all
  show ?thesis
    unfolding Pair applyRewrite_def using m
    by (simp add: Let_def assign_keeps split: option.split)
qed

lemma applyHeaders_keeps:
  assumes "applyHeaders e key r st = Inr st'" and "definesKey k (fst st)"
  shows "definesKey k (fst st')"
proof (cases st)
  case (Pair mws chain)
  with assms(2) obtain m where m: "mws = Some m" "m k \<noteq> None"
    by (cases mws) simp_all
  show ?thesis
  proof (cases "truthy_str (headers r) \<or> truthy_str (setHostHeader r)")
    case False
    with assms(1) Pair m show ?thesis by (auto simp: applyHeaders_def)
  next
    case True
    show ?thesis
    proof (cases "headersObj e r")
      case (Inl err)
      with assms(1) True Pair show ?thesis by (simp add: applyHeaders_def)
    next
      case (Inr obj)
      with assms(1) True Pair m show ?thesis
        by (cases "0 < length obj") (auto simp: applyHeaders_def)
    qed
  qed
qed

lemma chainOf_keeps:
  assumes "chainOf e cfg key r h = Inr st" and "definesKey k (middlewares h)"
  shows "definesKey k (fst st)"
proof -
  have "definesKey k (fst (applyRewrite e key r
          (middlewares h,
           badgerMiddlewareName
             # (case additional_middlewares cfg of None \<Rightarrow> [] | Some l \<Rightarrow> l))))"
    by (rule applyRewrite_keeps) (simp add: assms(2))
  with assms(1) show ?thesis
    unfolding chainOf_def by (rule applyHeaders_keeps)
qed

lemma definesRedirect_Inr:
  "definesRedirect (Inr doc)
     = (\<exists>h. doc ''http'' = Some h \<and> definesKey redirectHttpsMiddlewareName (middlewares h))"
  by (simp add: definesRedirect_def split: option.split)

lemma processHttp_keeps_redirect:
  assumes "processHttp e cfg key r doc = Inr doc'" and "definesRedirect (Inr doc)"
  shows "definesRedirect (Inr doc')"
proof (cases "\<not> truthy_str (domainId r) \<or> \<not> truthy_str (fullDomain r)")
  case True
  then have "doc' = doc" using assms(1) by (simp add: processHttp_def)
  with assms(2) show ?thesis by simp
next
  case False
  from assms(2) obtain h where h: "doc ''http'' = Some h"
    and k: "definesKey redirectHttpsMiddlewareName (middlewares h)"
    unfolding definesRedirect_Inr by blast
  let ?h1 = "h\<lparr>routers := Some (or_empty_map (routers h)),
               services := Some (or_empty_map (services h))\<rparr>"
  have k1: "definesKey redirectHttpsMiddlewareName (middlewares ?h1)"
    using k by simp
  show ?thesis
  proof (cases "showMaintenancePage r")
    case True
    with assms(1) False h have "doc' = doc(''http'' \<mapsto> emitMaintenance cfg key r ?h1)"
      by (simp add: processHttp_def Let_def)
    then show ?thesis
      unfolding definesRedirect_Inr using k1 by (simp add: middlewares_emitMaintenance)
  next
    case no: False
    with assms(1) False h obtain h2 where h2: "emitNormal e cfg key r ?h1 = Inr h2"
      and doc': "doc' = doc(''http'' \<mapsto> h2)"
      by (cases "emitNormal e cfg key r ?h1") (simp_all add: processHttp_def Let_def)
    from emitNormal_Inr [OF h2] obtain mws ms
      where c: "chainOf e cfg key r ?h1 = Inr (mws, ms)" and m: "middlewares h2 = mws"
      by blast
    from chainOf_keeps [OF c k1] m
    have "definesKey redirectHttpsMiddlewareName (middlewares h2)" by simp
    then show ?thesis
      unfolding definesRedirect_Inr doc' by simp
  qed
qed

lemma processRaw_Inr:
  assumes "processRaw cfg key r doc = Inr doc'"
    and "truthy_bool (enableProxy r)" and "truthy_num (proxyPort r)"
  obtains sec rs ss where
    "sec = (case doc (toLowerCase (protocol r)) of
              None \<Rightarrow> \<lparr> routers = Some Map.empty, services = Some Map.empty,
                         middlewares = None, serversTransports = None \<rparr>
            | Some s \<Rightarrow> s)"
    and "routers sec = Some rs" and "services sec = Some ss"
    and "doc' = doc(toLowerCase (protocol r) \<mapsto>
           sec\<lparr>routers := Some (rs(routerNameOf key r
                                      \<mapsto> rawRouter (toLowerCase (protocol r)) key r)),
                services := Some (ss(serviceNameOf key r
                                      \<mapsto> rawService cfg (toLowerCase (protocol r)) r))\<rparr>)"
proof -
  let ?proto = "toLowerCase (protocol r)"
  let ?sec = "case doc ?proto of
                None \<Rightarrow> \<lparr> routers = Some Map.empty, services = Some Map.empty,
                           middlewares = None, serversTransports = None \<rparr>
              | Some s \<Rightarrow> s"
  have raise: "\<not> (doc ?proto = None \<and> ?proto \<in> set objectPrototypeNames)"
    using assms by (auto simp: processRaw_def Let_def)
  from assms raise obtain rs where rs: "routers ?sec = Some rs"
    by (cases "routers ?sec") (auto simp: processRaw_def Let_def)
  from assms raise rs obtain ss where ss: "services ?sec = Some ss"
    by (cases "services ?sec") (auto simp: processRaw_def Let_def)
  from assms raise rs ss
  have "doc' = doc(?proto \<mapsto>
           ?sec\<lparr>routers := Some (rs(routerNameOf key r \<mapsto> rawRouter ?proto key r)),
                 services := Some (ss(serviceNameOf key r \<mapsto> rawService cfg ?proto r))\<rparr>)"
    by (auto simp: processRaw_def Let_def)
  with rs ss that show ?thesis by blast
qed

lemma processRaw_keeps_redirect:
  assumes "processRaw cfg key r doc = Inr doc'" and "definesRedirect (Inr doc)"
  shows "definesRedirect (Inr doc')"
proof (cases "\<not> truthy_bool (enableProxy r) \<or> \<not> truthy_num (proxyPort r)")
  case True
  then have "doc' = doc" using assms(1) by (simp add: processRaw_def)
  with assms(2) show ?thesis by simp
next
  case False
  from assms(2) obtain h where h: "doc ''http'' = Some h"
    and k: "definesKey redirectHttpsMiddlewareName (middlewares h)"
    unfolding definesRedirect_Inr by blast
  from False have p: "truthy_bool (enableProxy r)" "truthy_num (proxyPort r)" by simp_all
  let ?proto = "toLowerCase (protocol r)"
  from processRaw_Inr [OF assms(1) p] obtain sec rs ss
    where sec: "sec = (case doc ?proto of
              None \<Rightarrow> \<lparr> routers = Some Map.empty, services = Some Map.empty,
                         middlewares = None, serversTransports = None \<rparr>
            | Some s \<Rightarrow> s)"
      and doc': "doc' = doc(?proto \<mapsto>
           sec\<lparr>routers := Some (rs(routerNameOf key r \<mapsto> rawRouter ?proto key r)),
                services := Some (ss(serviceNameOf key r \<mapsto> rawService cfg ?proto r))\<rparr>)"
    by blast
  show ?thesis
  proof (cases "?proto = ''http''")
    case True
    then have "sec = h" using h sec by simp
    then show ?thesis
      unfolding definesRedirect_Inr doc' using True k by simp
  next
    case False
    then show ?thesis
      unfolding definesRedirect_Inr doc' using h k by simp
  qed
qed

lemma processGroup_keeps_redirect:
  assumes "processGroup e cfg kr doc = Inr doc'" and "definesRedirect (Inr doc)"
  shows "definesRedirect (Inr doc')"
proof (cases kr)
  case (Pair key r)
  show ?thesis
  proof (cases "enabled r")
    case False
    then have "doc' = doc" using assms(1) Pair by (simp add: processGroup_def)
    with assms(2) show ?thesis by simp
  next
    case True
    show ?thesis
    proof (cases "http r")
      case True
      with \<open>enabled r\<close> assms(1) Pair have "processHttp e cfg key r doc = Inr doc'"
        by (simp add: processGroup_def)
      then show ?thesis using assms(2) by (rule processHttp_keeps_redirect)
    next
      case False
      with \<open>enabled r\<close> assms(1) Pair have "processRaw cfg key r doc = Inr doc'"
        by (simp add: processGroup_def)
      then show ?thesis using assms(2) by (rule processRaw_keeps_redirect)
    qed
  qed
qed

lemma processGroups_keeps_redirect:
  "processGroups e cfg m doc = Inr doc' \<Longrightarrow> definesRedirect (Inr doc)
   \<Longrightarrow> definesRedirect (Inr doc')"
proof (induction m arbitrary: doc)
  case Nil
  then show ?case by simp
next
  case (Cons kr rest)
  from Cons.prems(1) obtain d where d: "processGroup e cfg kr doc = Inr d"
    and rest: "processGroups e cfg rest d = Inr doc'"
    by (simp split: sum.splits)
  from processGroup_keeps_redirect [OF d Cons.prems(2)] Cons.IH [OF rest]
  show ?case by blast
qed

lemma definesRedirect_config_output: "definesRedirect (Inr config_output)"
  by (simp add: definesRedirect_def config_output_def)

text \<open>A step touches no HTTP router outside the names of its group.\<close>

lemma processGroup_frame:
  assumes step: "processGroup e cfg kr doc = Inr doc'"
    and dr: "definesRedirect (Inr doc)"
    and n: "n \<notin> set (routerNamesOf kr)"
  shows "httpRouters (Inr doc') n = httpRouters (Inr doc) n"
proof -
  obtain key r where kr: "kr = (key, r)" by (cases kr)
  from dr obtain h where h: "doc ''http'' = Some h"
    unfolding definesRedirect_Inr by blast
  from n kr have names: "n \<noteq> routerNameOf key r" "n \<noteq> routerNameOf key r @ ''-redirect''"
    "n \<noteq> maintenanceRouterNameOf key" "n \<noteq> maintenanceRouterNameOf key @ ''-redirect''"
    by (simp_all add: routerNamesOf_def)
  consider (skip) "doc' = doc"
    | (maint) "enabled r" "http r" "truthy_str (domainId r)" "truthy_str (fullDomain r)"
        "showMaintenancePage r"
    | (normal) "enabled r" "http r" "truthy_str (domainId r)" "truthy_str (fullDomain r)"
        "\<not> showMaintenancePage r"
    | (raw) "enabled r" "\<not> http r" "truthy_bool (enableProxy r)" "truthy_num (proxyPort r)"
    using step kr
    by (cases "enabled r"; cases "http r";
        cases "truthy_str (domainId r)"; cases "truthy_str (fullDomain r)";
        cases "truthy_bool (enableProxy r)"; cases "truthy_num (proxyPort r)";
        cases "showMaintenancePage r")
       (simp_all add: processGroup_def processHttp_def processRaw_def)
  then show ?thesis
  proof cases
    case skip
    then show ?thesis by simp
  next
    case maint
    from httpRouters_maintenance [where doc = doc and e = e and cfg = cfg and key = key,
        OF maint(1-4) h maint(5)] step kr
    show ?thesis using names by auto
  next
    case normal
    from httpRouters_normal [where doc = doc and e = e and cfg = cfg and key = key,
        OF normal(1-4) h normal(5)] step kr
    show ?thesis using names by auto
  next
    case raw
    let ?proto = "toLowerCase (protocol r)"
    from raw step kr have pr: "processRaw cfg key r doc = Inr doc'"
      by (simp add: processGroup_def)
    from processRaw_Inr [OF pr raw(3,4)] obtain sec rs ss
      where sec: "sec = (case doc ?proto of
              None \<Rightarrow> \<lparr> routers = Some Map.empty, services = Some Map.empty,
                         middlewares = None, serversTransports = None \<rparr>
            | Some s \<Rightarrow> s)"
        and rs: "routers sec = Some rs"
        and doc': "doc' = doc(?proto \<mapsto>
           sec\<lparr>routers := Some (rs(routerNameOf key r \<mapsto> rawRouter ?proto key r)),
                services := Some (ss(serviceNameOf key r \<mapsto> rawService cfg ?proto r))\<rparr>)"
      by blast
    show ?thesis
    proof (cases "?proto = ''http''")
      case True
      then have "sec = h" using h sec by simp
      with rs have "httpRouters (Inr doc) = rs"
        using h by (simp add: httpRouters_def)
      moreover have "httpRouters (Inr doc') = rs(routerNameOf key r \<mapsto> rawRouter ?proto key r)"
        unfolding doc' using True by (simp add: httpRouters_def)
      ultimately show ?thesis using names by simp
    next
      case False
      then show ?thesis
        unfolding doc' by (simp add: httpRouters_def)
    qed
  qed
qed

lemma processGroups_frame:
  "processGroups e cfg m doc = Inr doc' \<Longrightarrow> definesRedirect (Inr doc)
   \<Longrightarrow> \<forall>kr \<in> set m. n \<notin> set (routerNamesOf kr)
   \<Longrightarrow> httpRouters (Inr doc') n = httpRouters (Inr doc) n"
proof (induction m arbitrary: doc)
  case Nil
  then show ?case by simp
next
  case (Cons kr rest)
  from Cons.prems(1) obtain d where d: "processGroup e cfg kr doc = Inr d"
    and rest: "processGroups e cfg rest d = Inr doc'"
    by (simp split: sum.splits)
  have n: "n \<notin> set (routerNamesOf kr)" using Cons.prems(3) by simp
  have dr: "definesRedirect (Inr d)"
    by (rule processGroup_keeps_redirect [OF d Cons.prems(2)])
  have "httpRouters (Inr doc') n = httpRouters (Inr d) n"
    using Cons.IH [OF rest dr] Cons.prems(3) by simp
  also have "\<dots> = httpRouters (Inr doc) n"
    by (rule processGroup_frame [OF d Cons.prems(2) n])
  finally show ?case .
qed

lemma processGroups_append:
  "processGroups e cfg (pre @ kr # post) doc = Inr doc' \<Longrightarrow>
   \<exists>d1 d2. processGroups e cfg pre doc = Inr d1 \<and> processGroup e cfg kr d1 = Inr d2
           \<and> processGroups e cfg post d2 = Inr doc'"
proof (induction pre arbitrary: doc)
  case Nil
  then show ?case by (simp split: sum.splits)
next
  case (Cons x pre)
  from Cons.prems obtain d where d: "processGroup e cfg x doc = Inr d"
    and rest: "processGroups e cfg (pre @ kr # post) d = Inr doc'"
    by (simp split: sum.splits)
  from Cons.IH [OF rest] d show ?case by simp
qed


text \<open>
  When the loop returns a document: no TCP/UDP group names \<^verbatim>\<open>http\<close> or an inherited property
  as its protocol, and the headers of no HTTP group raise.  (These conditions are
  sufficient, not necessary.)
\<close>

lemma processGroup_total:
  assumes dr: "definesRedirect (Inr doc)"
    and inv: "\<forall>p sec. doc p = Some sec \<longrightarrow> p \<noteq> ''http''
                \<longrightarrow> routers sec \<noteq> None \<and> services sec \<noteq> None"
    and raw_ok: "\<not> http r \<longrightarrow> toLowerCase (protocol r) \<notin> set (''http'' # objectPrototypeNames)"
    and web_ok: "http r \<longrightarrow> (\<exists>obj. headersObj e r = Inr obj)"
  shows "\<exists>doc'. processGroup e cfg (key, r) doc = Inr doc'
           \<and> (\<forall>p sec. doc' p = Some sec \<longrightarrow> p \<noteq> ''http''
                \<longrightarrow> routers sec \<noteq> None \<and> services sec \<noteq> None)"
proof -
  from dr obtain h where h: "doc ''http'' = Some h"
    unfolding definesRedirect_Inr by blast
  let ?h1 = "h\<lparr>routers := Some (or_empty_map (routers h)),
               services := Some (or_empty_map (services h))\<rparr>"
  consider (skip) "processGroup e cfg (key, r) doc = Inr doc"
    | (maint) "enabled r" "http r" "truthy_str (domainId r)" "truthy_str (fullDomain r)"
        "showMaintenancePage r"
    | (normal) "enabled r" "http r" "truthy_str (domainId r)" "truthy_str (fullDomain r)"
        "\<not> showMaintenancePage r"
    | (raw) "enabled r" "\<not> http r" "truthy_bool (enableProxy r)" "truthy_num (proxyPort r)"
    by (cases "enabled r"; cases "http r";
        cases "truthy_str (domainId r)"; cases "truthy_str (fullDomain r)";
        cases "truthy_bool (enableProxy r)"; cases "truthy_num (proxyPort r)";
        cases "showMaintenancePage r")
       (simp_all add: processGroup_def processHttp_def processRaw_def)
  then show ?thesis
  proof cases
    case skip
    with inv show ?thesis by simp
  next
    case maint
    from processGroup_maintenance [where doc = doc and e = e and cfg = cfg and key = key,
        OF maint(1-4) h maint(5)] inv
    show ?thesis by simp
  next
    case normal
    from web_ok normal(2) obtain obj where "headersObj e r = Inr obj" by blast
    from chainOf_returns [OF this] obtain st where "chainOf e cfg key r ?h1 = Inr st"
      by blast
    from emitNormal_returns [OF this] obtain h2 where "emitNormal e cfg key r ?h1 = Inr h2"
      by blast
    with processGroup_normal [where doc = doc and e = e and cfg = cfg and key = key,
        OF normal(1-4) h normal(5)] inv
    show ?thesis by simp
  next
    case raw
    let ?proto = "toLowerCase (protocol r)"
    let ?sec = "case doc ?proto of
                  None \<Rightarrow> \<lparr> routers = Some Map.empty, services = Some Map.empty,
                             middlewares = None, serversTransports = None \<rparr>
                | Some s \<Rightarrow> s"
    from raw raw_ok have p: "?proto \<noteq> ''http''" "?proto \<notin> set objectPrototypeNames"
      by simp_all
    have "routers ?sec \<noteq> None \<and> services ?sec \<noteq> None"
    proof (cases "doc ?proto")
      case None
      then show ?thesis by simp
    next
      case (Some s)
      with inv p show ?thesis by simp
    qed
    then obtain rs ss where rs: "routers ?sec = Some rs" and ss: "services ?sec = Some ss"
      by blast
    have "processGroup e cfg (key, r) doc =
            Inr (doc(?proto \<mapsto>
                 ?sec\<lparr>routers := Some (rs(routerNameOf key r \<mapsto> rawRouter ?proto key r)),
                      services := Some (ss(serviceNameOf key r \<mapsto> rawService cfg ?proto r))\<rparr>))"
      using raw rs ss p by (simp add: processGroup_def processRaw_def Let_def)
    with inv show ?thesis by simp
  qed
qed

lemma processGroups_total:
  assumes "definesRedirect (Inr doc)"
    and "\<forall>p sec. doc p = Some sec \<longrightarrow> p \<noteq> ''http''
            \<longrightarrow> routers sec \<noteq> None \<and> services sec \<noteq> None"
    and "\<forall>kr \<in> set m.
           (\<not> http (snd kr)
              \<longrightarrow> toLowerCase (protocol (snd kr)) \<notin> set (''http'' # objectPrototypeNames))
           \<and> (http (snd kr) \<longrightarrow> (\<exists>obj. headersObj e (snd kr) = Inr obj))"
  shows "returnsDocument (processGroups e cfg m doc)"
  using assms
proof (induction m arbitrary: doc)
  case Nil
  show ?case by (simp add: returnsDocument_def)
next
  case (Cons kr rest)
  obtain key r where kr: "kr = (key, r)" by (cases kr)
  from Cons.prems(3) kr
  have raw_ok: "\<not> http r \<longrightarrow> toLowerCase (protocol r) \<notin> set (''http'' # objectPrototypeNames)"
    and web_ok: "http r \<longrightarrow> (\<exists>obj. headersObj e r = Inr obj)"
    by simp_all
  from processGroup_total [OF Cons.prems(1,2) raw_ok web_ok, of cfg key]
  obtain d where d: "processGroup e cfg (key, r) doc = Inr d"
    and inv: "\<forall>p sec. d p = Some sec \<longrightarrow> p \<noteq> ''http''
                \<longrightarrow> routers sec \<noteq> None \<and> services sec \<noteq> None"
    by blast
  have dr: "definesRedirect (Inr d)"
    using processGroup_keeps_redirect [OF d Cons.prems(1)] .
  have "returnsDocument (processGroups e cfg rest d)"
    using Cons.IH [OF dr inv] Cons.prems(3) by simp
  then show ?case using d kr by simp
qed

lemma config_output_sections:
  "\<forall>p sec. config_output p = Some sec \<longrightarrow> p \<noteq> ''http''
     \<longrightarrow> routers sec \<noteq> None \<and> services sec \<noteq> None"
  by (simp add: config_output_def)

lemma getTraefikConfig_returns:
  assumes "\<forall>kr \<in> set (aggregate e rows).
           (\<not> http (snd kr)
              \<longrightarrow> toLowerCase (protocol (snd kr)) \<notin> set (''http'' # objectPrototypeNames))
           \<and> (http (snd kr) \<longrightarrow> (\<exists>obj. headersObj e (snd kr) = Inr obj))"
  shows "returnsDocument (getTraefikConfig e cfg rows)"
proof (cases "aggregate e rows = []")
  case True
  then show ?thesis by (simp add: getTraefikConfig_def returnsDocument_def)
next
  case False
  then have "getTraefikConfig e cfg rows
               = processGroups e cfg (aggregate e rows) config_output"
    by (simp add: getTraefikConfig_def)
  then show ?thesis
    using processGroups_total [OF definesRedirect_config_output config_output_sections assms]
    by simp
qed

section \<open>Maintenance decision\<close>

lemma maintenanceRouter_facts:
  "router_rule (maintenanceRouter cfg key r) = Some (hostRule (or_empty (fullDomain r)))"
  "router_priority (maintenanceRouter cfg key r) = Some 2000"
  "router_middlewares (maintenanceRouter cfg key r) = None"
  by (simp_all add: maintenanceRouter_def)

text \<open>
  The routers of one HTTP group in the returned document, when no other group writes under
  its names.
\<close>

lemma group_routers_in_document:
  assumes agg: "aggregate e rows = pre @ (key, r) # post"
    and web: "http r"
    and ret: "returnsDocument (getTraefikConfig e cfg rows)"
    and apart: "\<forall>kr \<in> set (pre @ post). \<forall>n \<in> set (routerNamesOf (key, r)).
                  n \<notin> set (routerNamesOf kr)"
  shows "enabled r \<and> truthy_str (domainId r) \<and> truthy_str (fullDomain r)
           \<and> showMaintenancePage r
         \<longrightarrow> httpRouters (getTraefikConfig e cfg rows) (maintenanceRouterNameOf key)
               = Some (maintenanceRouter cfg key r)
             \<and> (\<forall>n \<in> set (routerNamesOf (key, r)).
                   n \<noteq> maintenanceRouterNameOf key
                   \<and> n \<noteq> maintenanceRouterNameOf key @ ''-redirect''
                   \<longrightarrow> httpRouters (getTraefikConfig e cfg rows) n = None)"
    and "enabled r \<and> truthy_str (domainId r) \<and> truthy_str (fullDomain r)
           \<and> \<not> showMaintenancePage r
         \<longrightarrow> (\<exists>st. chainOf e cfg key r h = Inr st
                \<and> httpRouters (getTraefikConfig e cfg rows) (routerNameOf key r)
                    = Some (normalRouter cfg key r (snd st)))
             \<and> (\<forall>n \<in> set (routerNamesOf (key, r)).
                   n \<noteq> routerNameOf key r \<and> n \<noteq> routerNameOf key r @ ''-redirect''
                   \<longrightarrow> httpRouters (getTraefikConfig e cfg rows) n = None)"
    and "\<not> (enabled r \<and> truthy_str (domainId r) \<and> truthy_str (fullDomain r))
         \<longrightarrow> (\<forall>n \<in> set (routerNamesOf (key, r)).
                  httpRouters (getTraefikConfig e cfg rows) n = None)"
proof -
  have g: "getTraefikConfig e cfg rows
             = processGroups e cfg (pre @ (key, r) # post) config_output"
    using agg by (simp add: getTraefikConfig_def)
  from ret obtain d where d: "processGroups e cfg (pre @ (key, r) # post) config_output = Inr d"
    unfolding g returnsDocument_def by (simp split: sum.splits)
  from processGroups_append [OF d] obtain d1 d2
    where p1: "processGroups e cfg pre config_output = Inr d1"
      and p2: "processGroup e cfg (key, r) d1 = Inr d2"
      and p3: "processGroups e cfg post d2 = Inr d"
    by blast
  have dr1: "definesRedirect (Inr d1)"
    by (rule processGroups_keeps_redirect [OF p1 definesRedirect_config_output])
  have dr2: "definesRedirect (Inr d2)"
    by (rule processGroup_keeps_redirect [OF p2 dr1])
  from dr1 obtain h1 where h1: "d1 ''http'' = Some h1"
    unfolding definesRedirect_Inr by blast
  have before: "httpRouters (Inr d1) n = None" if "n \<in> set (routerNamesOf (key, r))" for n
  proof -
    from apart that have "\<forall>kr \<in> set pre. n \<notin> set (routerNamesOf kr)" by simp
    from processGroups_frame [OF p1 definesRedirect_config_output this]
    show ?thesis by (simp add: httpRouters_config_output)
  qed
  have after: "httpRouters (getTraefikConfig e cfg rows) n = httpRouters (Inr d2) n"
    if "n \<in> set (routerNamesOf (key, r))" for n
  proof -
    from apart that have "\<forall>kr \<in> set post. n \<notin> set (routerNamesOf kr)" by simp
    from processGroups_frame [OF p3 dr2 this]
    show ?thesis unfolding g d .
  qed
  have mem: "maintenanceRouterNameOf key \<in> set (routerNamesOf (key, r))"
    "routerNameOf key r \<in> set (routerNamesOf (key, r))"
    by (simp_all add: routerNamesOf_def)
  show "enabled r \<and> truthy_str (domainId r) \<and> truthy_str (fullDomain r)
           \<and> showMaintenancePage r
         \<longrightarrow> httpRouters (getTraefikConfig e cfg rows) (maintenanceRouterNameOf key)
               = Some (maintenanceRouter cfg key r)
             \<and> (\<forall>n \<in> set (routerNamesOf (key, r)).
                   n \<noteq> maintenanceRouterNameOf key
                   \<and> n \<noteq> maintenanceRouterNameOf key @ ''-redirect''
                   \<longrightarrow> httpRouters (getTraefikConfig e cfg rows) n = None)"
  proof (intro impI)
    assume c: "enabled r \<and> truthy_str (domainId r) \<and> truthy_str (fullDomain r)
                 \<and> showMaintenancePage r"
    then have c': "enabled r" "truthy_str (domainId r)" "truthy_str (fullDomain r)"
      "showMaintenancePage r" by simp_all
    from httpRouters_maintenance [where doc = d1 and e = e and cfg = cfg and key = key,
        OF c'(1) web c'(2,3) h1 c'(4)] p2
    have rs: "httpRouters (Inr d2) =
               (if ssl r
                then (httpRouters (Inr d1))
                       (maintenanceRouterNameOf key \<mapsto> maintenanceRouter cfg key r,
                        maintenanceRouterNameOf key @ ''-redirect''
                          \<mapsto> maintenanceRedirect cfg key r)
                else (httpRouters (Inr d1))
                       (maintenanceRouterNameOf key \<mapsto> maintenanceRouter cfg key r))"
      by simp
    have 1: "httpRouters (getTraefikConfig e cfg rows) (maintenanceRouterNameOf key)
               = Some (maintenanceRouter cfg key r)"
      unfolding after [OF mem(1)] rs by simp
    have 2: "httpRouters (getTraefikConfig e cfg rows) n = None"
      if "n \<in> set (routerNamesOf (key, r))" "n \<noteq> maintenanceRouterNameOf key"
        "n \<noteq> maintenanceRouterNameOf key @ ''-redirect''" for n
      unfolding after [OF that(1)] rs using that(2,3) before [OF that(1)] by simp
    from 1 2 show "httpRouters (getTraefikConfig e cfg rows) (maintenanceRouterNameOf key)
               = Some (maintenanceRouter cfg key r)
             \<and> (\<forall>n \<in> set (routerNamesOf (key, r)).
                   n \<noteq> maintenanceRouterNameOf key
                   \<and> n \<noteq> maintenanceRouterNameOf key @ ''-redirect''
                   \<longrightarrow> httpRouters (getTraefikConfig e cfg rows) n = None)"
      by blast
  qed
  show "enabled r \<and> truthy_str (domainId r) \<and> truthy_str (fullDomain r)
           \<and> \<not> showMaintenancePage r
         \<longrightarrow> (\<exists>st. chainOf e cfg key r h = Inr st
                \<and> httpRouters (getTraefikConfig e cfg rows) (routerNameOf key r)
                    = Some (normalRouter cfg key r (snd st)))
             \<and> (\<forall>n \<in> set (routerNamesOf (key, r)).
                   n \<noteq> routerNameOf key r \<and> n \<noteq> routerNameOf key r @ ''-redirect''
                   \<longrightarrow> httpRouters (getTraefikConfig e cfg rows) n = None)"
  proof (intro impI)
    assume c: "enabled r \<and> truthy_str (domainId r) \<and> truthy_str (fullDomain r)
                 \<and> \<not> showMaintenancePage r"
    then have c': "enabled r" "truthy_str (domainId r)" "truthy_str (fullDomain r)"
      "\<not> showMaintenancePage r" by simp_all
    from httpRouters_normal [where doc = d1 and e = e and cfg = cfg and key = key,
        OF c'(1) web c'(2,3) h1 c'(4) p2]
    obtain st1 where st1: "chainOf e cfg key r h1 = Inr st1"
      and rs: "httpRouters (Inr d2) =
               (if ssl r
                then (httpRouters (Inr d1))
                       (routerNameOf key r \<mapsto> normalRouter cfg key r (snd st1),
                        routerNameOf key r @ ''-redirect'' \<mapsto> normalRedirect cfg key r)
                else (httpRouters (Inr d1))
                       (routerNameOf key r \<mapsto> normalRouter cfg key r (snd st1)))"
      by blast
    from chainOf_snd [OF st1, of h] obtain st where st: "chainOf e cfg key r h = Inr st"
      and sn: "snd st = snd st1" by blast
    have "httpRouters (getTraefikConfig e cfg rows) (routerNameOf key r)
            = Some (normalRouter cfg key r (snd st))"
      unfolding after [OF mem(2)] rs sn by simp
    with st have 1: "\<exists>st. chainOf e cfg key r h = Inr st
                \<and> httpRouters (getTraefikConfig e cfg rows) (routerNameOf key r)
                    = Some (normalRouter cfg key r (snd st))"
      by blast
    have 2: "httpRouters (getTraefikConfig e cfg rows) n = None"
      if "n \<in> set (routerNamesOf (key, r))" "n \<noteq> routerNameOf key r"
        "n \<noteq> routerNameOf key r @ ''-redirect''" for n
      unfolding after [OF that(1)] rs using that(2,3) before [OF that(1)] by simp
    from 1 2 show "(\<exists>st. chainOf e cfg key r h = Inr st
                \<and> httpRouters (getTraefikConfig e cfg rows) (routerNameOf key r)
                    = Some (normalRouter cfg key r (snd st)))
             \<and> (\<forall>n \<in> set (routerNamesOf (key, r)).
                   n \<noteq> routerNameOf key r \<and> n \<noteq> routerNameOf key r @ ''-redirect''
                   \<longrightarrow> httpRouters (getTraefikConfig e cfg rows) n = None)"
      by blast
  qed
  show "\<not> (enabled r \<and> truthy_str (domainId r) \<and> truthy_str (fullDomain r))
         \<longrightarrow> (\<forall>n \<in> set (routerNamesOf (key, r)).
                  httpRouters (getTraefikConfig e cfg rows) n = None)"
  proof (intro impI ballI)
    fix n
    assume c: "\<not> (enabled r \<and> truthy_str (domainId r) \<and> truthy_str (fullDomain r))"
      and n: "n \<in> set (routerNamesOf (key, r))"
    from processGroup_skipped [OF web c, of e cfg key d1] p2 have "d2 = d1" by simp
    then show "httpRouters (getTraefikConfig e cfg rows) n = None"
      unfolding after [OF n] using before [OF n] by simp
  qed
qed


text \<open>
  C1, as amended.  Take an HTTP route group of a call that returns a document, such that no
  other group writes under its router names.  If the group reaches emission (resource
  enabled, domain id and full domain present), then
  \<^item> with maintenance mode enabled and type forced, or type automatic and no available
    server, the document has the maintenance router of the group (rule
    \<^verbatim>\<open>Host(`fullDomain`)\<close> alone, priority 2000, no middleware chain) and, under the
    group's names, no router but that one and its redirect twin: no normal router;
  \<^item> with maintenance mode disabled, or type automatic and at least one available
    server, the document has the normal router of the group and, under the group's names,
    no router but that one and its redirect twin: no maintenance router.
  If the group does not reach emission, the document has no router under any of its names,
  whatever its maintenance mode.
\<close>

theorem maintenance_decision:
  assumes "aggregate e rows = pre @ (key, r) # post"
    and "http r"
    and "returnsDocument (getTraefikConfig e cfg rows)"
    and "\<forall>kr \<in> set (pre @ post). \<forall>n \<in> set (routerNamesOf (key, r)).
           n \<notin> set (routerNamesOf kr)"
  shows
    "router_rule (maintenanceRouter cfg key r) = Some (hostRule (or_empty (fullDomain r)))
     \<and> router_priority (maintenanceRouter cfg key r) = Some 2000
     \<and> router_middlewares (maintenanceRouter cfg key r) = None
     \<and> (enabled r \<and> truthy_str (domainId r) \<and> truthy_str (fullDomain r)
          \<and> maintenanceModeEnabled r
          \<and> (maintenanceModeType r = Some ''forced''
               \<or> maintenanceModeType r = Some ''automatic''
                  \<and> availableServers (targets r) = [])
        \<longrightarrow> httpRouters (getTraefikConfig e cfg rows) (maintenanceRouterNameOf key)
              = Some (maintenanceRouter cfg key r)
            \<and> (\<forall>n \<in> set (routerNamesOf (key, r)).
                  n \<noteq> maintenanceRouterNameOf key
                  \<and> n \<noteq> maintenanceRouterNameOf key @ ''-redirect''
                  \<longrightarrow> httpRouters (getTraefikConfig e cfg rows) n = None))
     \<and> (enabled r \<and> truthy_str (domainId r) \<and> truthy_str (fullDomain r)
          \<and> (\<not> maintenanceModeEnabled r
               \<or> maintenanceModeType r = Some ''automatic''
                  \<and> availableServers (targets r) \<noteq> [])
        \<longrightarrow> (\<exists>st. chainOf e cfg key r h = Inr st
               \<and> httpRouters (getTraefikConfig e cfg rows) (routerNameOf key r)
                   = Some (normalRouter cfg key r (snd st)))
            \<and> (\<forall>n \<in> set (routerNamesOf (key, r)).
                  n \<noteq> routerNameOf key r \<and> n \<noteq> routerNameOf key r @ ''-redirect''
                  \<longrightarrow> httpRouters (getTraefikConfig e cfg rows) n = None))
     \<and> (\<not> (enabled r \<and> truthy_str (domainId r) \<and> truthy_str (fullDomain r))
        \<longrightarrow> (\<forall>n \<in> set (routerNamesOf (key, r)).
               httpRouters (getTraefikConfig e cfg rows) n = None))"
proof -
  note doc = group_routers_in_document(1) [OF assms]
    group_routers_in_document(2) [OF assms, where h = h]
    group_routers_in_document(3) [OF assms]
  have m: "showMaintenancePage r"
    if "maintenanceModeEnabled r
          \<and> (maintenanceModeType r = Some ''forced''
               \<or> maintenanceModeType r = Some ''automatic''
                  \<and> availableServers (targets r) = [])"
    using that showMaintenancePage_forced [of r] showMaintenancePage_automatic [of r]
    by blast
  have n: "\<not> showMaintenancePage r"
    if "\<not> maintenanceModeEnabled r
          \<or> maintenanceModeType r = Some ''automatic'' \<and> availableServers (targets r) \<noteq> []"
    using that showMaintenancePage_disabled [of r] showMaintenancePage_automatic [of r]
    by (cases "maintenanceModeEnabled r") blast+
  have 4: "enabled r \<and> truthy_str (domainId r) \<and> truthy_str (fullDomain r)
          \<and> maintenanceModeEnabled r
          \<and> (maintenanceModeType r = Some ''forced''
               \<or> maintenanceModeType r = Some ''automatic''
                  \<and> availableServers (targets r) = [])
        \<longrightarrow> httpRouters (getTraefikConfig e cfg rows) (maintenanceRouterNameOf key)
              = Some (maintenanceRouter cfg key r)
            \<and> (\<forall>n \<in> set (routerNamesOf (key, r)).
                  n \<noteq> maintenanceRouterNameOf key
                  \<and> n \<noteq> maintenanceRouterNameOf key @ ''-redirect''
                  \<longrightarrow> httpRouters (getTraefikConfig e cfg rows) n = None)"
    using doc(1) m by blast
  have 5: "enabled r \<and> truthy_str (domainId r) \<and> truthy_str (fullDomain r)
          \<and> (\<not> maintenanceModeEnabled r
               \<or> maintenanceModeType r = Some ''automatic''
                  \<and> availableServers (targets r) \<noteq> [])
        \<longrightarrow> (\<exists>st. chainOf e cfg key r h = Inr st
               \<and> httpRouters (getTraefikConfig e cfg rows) (routerNameOf key r)
                   = Some (normalRouter cfg key r (snd st)))
            \<and> (\<forall>n \<in> set (routerNamesOf (key, r)).
                  n \<noteq> routerNameOf key r \<and> n \<noteq> routerNameOf key r @ ''-redirect''
                  \<longrightarrow> httpRouters (getTraefikConfig e cfg rows) n = None)"
    using doc(2) n by blast
  show ?thesis
    by (intro conjI maintenanceRouter_facts 4 5 doc(3))
qed

lemma num_str_1: "num_str 1 = ''1''"
  by (simp add: num_str_def digits_of.simps digit_char_def)

lemma num_str_2: "num_str 2 = ''2''"
  by (simp add: num_str_def digits_of.simps digit_char_def)

lemma stubEnv_valid: "validatePathRewriteConfig stubEnv a b c d"
  by (simp add: stubEnv_def)

lemma aggregate_single:
  "validatePathRewriteConfig e (row_path r) (row_pathMatchType r) (row_rewritePath r)
     (row_rewritePathType r)
   \<Longrightarrow> aggregate e [r] = [(groupKey e r, (newResource e r)\<lparr>targets := [targetOf r]\<rparr>)]"
  by (simp add: aggregate_def addRow_def pushTarget_def Let_def newResource_def)

lemma aggregate_two:
  assumes "validatePathRewriteConfig e (row_path a) (row_pathMatchType a) (row_rewritePath a)
             (row_rewritePathType a)"
    and "validatePathRewriteConfig e (row_path b) (row_pathMatchType b) (row_rewritePath b)
             (row_rewritePathType b)"
    and "groupKey e a \<noteq> groupKey e b"
  shows "aggregate e [a, b]
           = [(groupKey e a, (newResource e a)\<lparr>targets := [targetOf a]\<rparr>),
              (groupKey e b, (newResource e b)\<lparr>targets := [targetOf b]\<rparr>)]"
  using assms
  by (simp add: aggregate_def addRow_def pushTarget_def Let_def newResource_def)

lemma groupKey_examples:
  "groupKey stubEnv exampleRow = Some ''1''"
  "groupKey stubEnv forcedRow = Some ''1''"
  "groupKey stubEnv automaticRow = Some ''1''"
  "groupKey stubEnv automaticDownRow = Some ''1''"
  "groupKey stubEnv forcedNoDomainRow = Some ''1''"
  "groupKey stubEnv noDomainRow = Some ''1''"
  "groupKey stubEnv tcpRow = Some ''1''"
  "groupKey stubEnv webRow = Some ''2''"
  by (simp_all add: groupKey_def mapKey_def pathKey_def stubEnv_def exampleRow_def
      forcedRow_def automaticRow_def automaticDownRow_def forcedNoDomainRow_def
      noDomainRow_def tcpRow_def webRow_def or_empty_def truthy_str_def num_str_1 num_str_2)

lemma newResource_examples:
  "(newResource stubEnv exampleRow)\<lparr>targets := [targetOf exampleRow]\<rparr> = exampleResource"
  "(newResource stubEnv forcedRow)\<lparr>targets := [targetOf forcedRow]\<rparr> = forcedResource"
  "(newResource stubEnv automaticRow)\<lparr>targets := [targetOf automaticRow]\<rparr>
     = automaticResource"
  "(newResource stubEnv automaticDownRow)\<lparr>targets := [targetOf automaticDownRow]\<rparr>
     = automaticDownResource"
  "(newResource stubEnv webRow)\<lparr>targets := [targetOf webRow]\<rparr> = webResource"
  by (simp_all add: newResource_def targetOf_def exampleRow_def forcedRow_def
      automaticRow_def automaticDownRow_def webRow_def exampleResource_def forcedResource_def
      automaticResource_def automaticDownResource_def webResource_def stubEnv_def or_empty_def
      truthy_str_def nullish_def example_targets)

lemma aggregate_examples:
  "aggregate stubEnv [exampleRow] = [(Some ''1'', exampleResource)]"
  "aggregate stubEnv [forcedRow] = [(Some ''1'', forcedResource)]"
  "aggregate stubEnv [automaticRow] = [(Some ''1'', automaticResource)]"
  "aggregate stubEnv [automaticDownRow] = [(Some ''1'', automaticDownResource)]"
  "aggregate stubEnv [webRow, forcedRow]
     = [(Some ''2'', webResource), (Some ''1'', forcedResource)]"
  using aggregate_single [OF stubEnv_valid, of exampleRow]
    aggregate_single [OF stubEnv_valid, of forcedRow]
    aggregate_single [OF stubEnv_valid, of automaticRow]
    aggregate_single [OF stubEnv_valid, of automaticDownRow]
    aggregate_two [OF stubEnv_valid stubEnv_valid, of webRow forcedRow]
  by (simp_all add: groupKey_examples newResource_examples)

lemma headersObj_none:
  "headers r = None \<Longrightarrow> setHostHeader r = None \<Longrightarrow> headersObj e r = Inr []"
  by (simp add: headersObj_def parsedHeaders_def truthy_str_def)

lemma example_resources:
  "http exampleResource" "http forcedResource" "http automaticResource"
  "http automaticDownResource" "http webResource"
  "enabled forcedResource" "enabled automaticResource" "enabled automaticDownResource"
  "truthy_str (domainId forcedResource)" "truthy_str (domainId automaticResource)"
  "truthy_str (domainId automaticDownResource)"
  "truthy_str (fullDomain forcedResource)" "truthy_str (fullDomain automaticResource)"
  "truthy_str (fullDomain automaticDownResource)"
  "maintenanceModeEnabled forcedResource" "maintenanceModeEnabled automaticResource"
  "maintenanceModeEnabled automaticDownResource"
  "maintenanceModeType forcedResource = Some ''forced''"
  "maintenanceModeType automaticResource = Some ''automatic''"
  "maintenanceModeType automaticDownResource = Some ''automatic''"
  by (simp_all add: exampleResource_def forcedResource_def automaticResource_def
      automaticDownResource_def webResource_def truthy_str_def)

lemma example_headers:
  "headersObj stubEnv exampleResource = Inr []" "headersObj stubEnv forcedResource = Inr []"
  "headersObj stubEnv automaticResource = Inr []"
  "headersObj stubEnv automaticDownResource = Inr []"
  "headersObj stubEnv webResource = Inr []"
  by (rule headersObj_none;
      simp add: exampleResource_def forcedResource_def automaticResource_def
        automaticDownResource_def webResource_def)+

lemma example_names:
  "routerNamesOf (Some ''1'', forcedResource)
     = [''1-app-router'', ''1-app-router-redirect'',
        ''1-maintenance-router'', ''1-maintenance-router-redirect'']"
  "routerNamesOf (Some ''1'', automaticResource)
     = [''1-app-router'', ''1-app-router-redirect'',
        ''1-maintenance-router'', ''1-maintenance-router-redirect'']"
  "routerNamesOf (Some ''1'', automaticDownResource)
     = [''1-app-router'', ''1-app-router-redirect'',
        ''1-maintenance-router'', ''1-maintenance-router-redirect'']"
  "routerNamesOf (Some ''2'', webResource)
     = [''2-web-router'', ''2-web-router-redirect'',
        ''2-maintenance-router'', ''2-maintenance-router-redirect'']"
  "maintenanceRouterNameOf (Some ''1'') = ''1-maintenance-router''"
  "routerNameOf (Some ''1'') automaticResource = ''1-app-router''"
  by (simp_all add: routerNamesOf_def routerNameOf_def maintenanceRouterNameOf_def
      tmpl_undefined_def exampleResource_def forcedResource_def automaticResource_def
      automaticDownResource_def webResource_def)

lemma example_availability:
  "availableServers (targets automaticResource) \<noteq> []"
  "availableServers (targets automaticDownResource) = []"
  by (simp_all add: availableServers_def isAvailable_def anySitesOnline_def
      automaticResource_def automaticDownResource_def exampleResource_def example_targets
      truthy_defs)

lemma example_chain:
  "chainOf stubEnv exampleTraefik (Some ''1'') automaticResource initialHttp
     = Inr (middlewares initialHttp, [''badger''])"
  by (simp add: chainOf_def applyRewrite_def applyHeaders_def automaticResource_def
      exampleResource_def exampleTraefik_def badgerMiddlewareName_def truthy_str_def)

theorem maintenance_decision_witness:
  "httpRouters (getTraefikConfig stubEnv exampleTraefik [forcedRow]) ''1-maintenance-router''
     = Some (maintenanceRouter exampleTraefik (Some ''1'') forcedResource)
   \<and> httpRouters (getTraefikConfig stubEnv exampleTraefik [forcedRow]) ''1-app-router'' = None
   \<and> httpRouters (getTraefikConfig stubEnv exampleTraefik [automaticRow]) ''1-app-router''
     = Some (normalRouter exampleTraefik (Some ''1'') automaticResource [''badger''])
   \<and> httpRouters (getTraefikConfig stubEnv exampleTraefik [automaticRow])
        ''1-maintenance-router'' = None
   \<and> httpRouters (getTraefikConfig stubEnv exampleTraefik [automaticDownRow])
        ''1-maintenance-router''
     = Some (maintenanceRouter exampleTraefik (Some ''1'') automaticDownResource)
   \<and> httpRouters (getTraefikConfig stubEnv exampleTraefik [automaticDownRow])
        ''1-app-router'' = None
   \<and> httpRouters (getTraefikConfig stubEnv exampleTraefik [webRow, forcedRow])
        ''1-maintenance-router''
     = Some (maintenanceRouter exampleTraefik (Some ''1'') forcedResource)
   \<and> httpRouters (getTraefikConfig stubEnv exampleTraefik [webRow, forcedRow])
        ''1-app-router'' = None"
proof -
  have ret: "returnsDocument (getTraefikConfig stubEnv exampleTraefik [forcedRow])"
    "returnsDocument (getTraefikConfig stubEnv exampleTraefik [automaticRow])"
    "returnsDocument (getTraefikConfig stubEnv exampleTraefik [automaticDownRow])"
    "returnsDocument (getTraefikConfig stubEnv exampleTraefik [webRow, forcedRow])"
    by (rule getTraefikConfig_returns;
        simp add: aggregate_examples example_resources example_headers)+
  have a1: "aggregate stubEnv [forcedRow] = [] @ (Some ''1'', forcedResource) # []"
    and a2: "aggregate stubEnv [automaticRow] = [] @ (Some ''1'', automaticResource) # []"
    and a3: "aggregate stubEnv [automaticDownRow]
               = [] @ (Some ''1'', automaticDownResource) # []"
    and a4: "aggregate stubEnv [webRow, forcedRow]
               = [(Some ''2'', webResource)] @ (Some ''1'', forcedResource) # []"
    by (simp_all add: aggregate_examples)
  have alone: "\<forall>kr \<in> set ([] @ []). \<forall>n \<in> set (routerNamesOf (k, r)).
                 n \<notin> set (routerNamesOf kr)" for k :: "string option" and r :: resource
    by simp
  have apart: "\<forall>kr \<in> set ([(Some ''2'', webResource)] @ []).
                 \<forall>n \<in> set (routerNamesOf (Some ''1'', forcedResource)).
                   n \<notin> set (routerNamesOf kr)"
    by (simp add: example_names)
  note f = maintenance_decision [where h = initialHttp, OF a1 example_resources(2) ret(1) alone]
  note a = maintenance_decision [where h = initialHttp, OF a2 example_resources(3) ret(2) alone]
  note d = maintenance_decision [where h = initialHttp, OF a3 example_resources(4) ret(3) alone]
  note w = maintenance_decision [where h = initialHttp, OF a4 example_resources(2) ret(4) apart]
  have 1: "httpRouters (getTraefikConfig stubEnv exampleTraefik [forcedRow])
             ''1-maintenance-router''
           = Some (maintenanceRouter exampleTraefik (Some ''1'') forcedResource)"
    and 2: "httpRouters (getTraefikConfig stubEnv exampleTraefik [forcedRow])
              ''1-app-router'' = None"
    using f by (simp_all add: example_resources example_names)
  have 3: "httpRouters (getTraefikConfig stubEnv exampleTraefik [automaticRow]) ''1-app-router''
           = Some (normalRouter exampleTraefik (Some ''1'') automaticResource [''badger''])"
    and 4: "httpRouters (getTraefikConfig stubEnv exampleTraefik [automaticRow])
              ''1-maintenance-router'' = None"
    using a
    by (simp_all add: example_resources example_names example_availability example_chain)
  have 5: "httpRouters (getTraefikConfig stubEnv exampleTraefik [automaticDownRow])
             ''1-maintenance-router''
           = Some (maintenanceRouter exampleTraefik (Some ''1'') automaticDownResource)"
    and 6: "httpRouters (getTraefikConfig stubEnv exampleTraefik [automaticDownRow])
              ''1-app-router'' = None"
    using d by (simp_all add: example_resources example_names example_availability)
  have 7: "httpRouters (getTraefikConfig stubEnv exampleTraefik [webRow, forcedRow])
             ''1-maintenance-router''
           = Some (maintenanceRouter exampleTraefik (Some ''1'') forcedResource)"
    and 8: "httpRouters (getTraefikConfig stubEnv exampleTraefik [webRow, forcedRow])
              ''1-app-router'' = None"
    using w by (simp_all add: example_resources example_names)
  show ?thesis by (intro conjI 1 2 3 4 5 6 7 8)
qed

text \<open>
  C1 as stated fails for a group that does not reach emission: the HTTP resource of the
  row below is in forced maintenance mode but has no domain id, so the loop skips its group
  (lines 349-351) and the returned document has no router at all, neither the maintenance
  router nor a normal one.
\<close>

theorem forced_group_skipped_counterexample:
  "row_http forcedNoDomainRow \<and> row_enabled forcedNoDomainRow
   \<and> row_maintenanceModeEnabled forcedNoDomainRow
   \<and> row_maintenanceModeType forcedNoDomainRow = Some ''forced''
   \<and> getTraefikConfig stubEnv exampleTraefik [forcedNoDomainRow] = Inr config_output
   \<and> httpRouters (Inr config_output) = Map.empty"
proof -
  have 1: "row_http forcedNoDomainRow" "row_enabled forcedNoDomainRow"
    "row_maintenanceModeEnabled forcedNoDomainRow"
    "row_maintenanceModeType forcedNoDomainRow = Some ''forced''"
    by (simp_all add: forcedNoDomainRow_def forcedRow_def exampleRow_def)
  have r: "enabled (newResource stubEnv forcedNoDomainRow)"
    "http (newResource stubEnv forcedNoDomainRow)"
    "domainId (newResource stubEnv forcedNoDomainRow) = None"
    by (simp_all add: newResource_def forcedNoDomainRow_def forcedRow_def exampleRow_def)
  have 2: "getTraefikConfig stubEnv exampleTraefik [forcedNoDomainRow] = Inr config_output"
    using r
    by (simp add: getTraefikConfig_def aggregate_single [OF stubEnv_valid] processGroup_def
        processHttp_def truthy_str_def)
  have 3: "httpRouters (Inr config_output) = Map.empty"
    by (rule ext) (rule httpRouters_config_output)
  show ?thesis by (intro conjI 1 2 3)
qed


section \<open>The redirect middleware\<close>




section \<open>The empty result\<close>

lemma addRow_empty:
  "(addRow e m r = []) =
     (m = [] \<and> \<not> validatePathRewriteConfig e (row_path r) (row_pathMatchType r)
                     (row_rewritePath r) (row_rewritePathType r))"
  by (cases m) (simp_all add: addRow_def pushTarget_def Let_def)

lemma foldl_addRow_empty:
  "(foldl (addRow e) m rows = []) =
     (m = [] \<and> (\<forall>r \<in> set rows. \<not> validatePathRewriteConfig e (row_path r)
                    (row_pathMatchType r) (row_rewritePath r) (row_rewritePathType r)))"
proof (induction rows arbitrary: m)
  case Nil
  show ?case by simp
next
  case (Cons r rows)
  show ?case
    unfolding foldl_Cons Cons.IH addRow_empty by auto
qed

text \<open>
  C9, as amended: the synthesizer returns the empty object exactly when aggregation yields
  no route group, which is exactly when the row set is empty or every row is rejected by
  the path/rewrite validation.
\<close>

theorem empty_object_iff_no_group:
  "(getTraefikConfig e cfg rows = Inr Map.empty) = (aggregate e rows = [])
   \<and> (aggregate e rows = []) =
       (\<forall>r \<in> set rows. \<not> validatePathRewriteConfig e (row_path r) (row_pathMatchType r)
                            (row_rewritePath r) (row_rewritePathType r))"
proof
  show "(getTraefikConfig e cfg rows = Inr Map.empty) = (aggregate e rows = [])"
  proof (cases "aggregate e rows = []")
    case True
    then show ?thesis by (simp add: getTraefikConfig_def)
  next
    case False
    have "getTraefikConfig e cfg rows \<noteq> Inr Map.empty"
    proof
      assume emp: "getTraefikConfig e cfg rows = Inr Map.empty"
      with False have "processGroups e cfg (aggregate e rows) config_output = Inr Map.empty"
        by (simp add: getTraefikConfig_def)
      from processGroups_keeps_redirect [OF this definesRedirect_config_output]
      show False by (simp add: definesRedirect_def)
    qed
    with False show ?thesis by simp
  qed
next
  show "(aggregate e rows = []) =
       (\<forall>r \<in> set rows. \<not> validatePathRewriteConfig e (row_path r) (row_pathMatchType r)
                            (row_rewritePath r) (row_rewritePathType r))"
    unfolding aggregate_def foldl_addRow_empty by simp
qed

theorem empty_object_iff_no_group_witness:
  "getTraefikConfig (stubEnv\<lparr>validatePathRewriteConfig := \<lambda>_ _ _ _. False\<rparr>) exampleTraefik
     [exampleRow] = Inr Map.empty
   \<and> getTraefikConfig stubEnv exampleTraefik [] = Inr Map.empty"
  using empty_object_iff_no_group
          [of "stubEnv\<lparr>validatePathRewriteConfig := \<lambda>_ _ _ _. False\<rparr>" exampleTraefik
              "[exampleRow]"]
        empty_object_iff_no_group [of stubEnv exampleTraefik "[]"]
  by simp

text \<open>
  C9 as stated fails for a group that is skipped at emission: the one group of the row
  below has no domain id, so the loop skips it, and the result is the initial document
  with its \<^verbatim>\<open>http.middlewares\<close> section, not the empty object.
\<close>

theorem skipped_group_counterexample:
  "\<not> truthy_str (row_domainId noDomainRow)
   \<and> getTraefikConfig stubEnv exampleTraefik [noDomainRow] = Inr config_output
   \<and> definesRedirect (Inr config_output)
   \<and> Inr config_output \<noteq> (Inr Map.empty :: error + document)"
proof -
  have 1: "\<not> truthy_str (row_domainId noDomainRow)"
    by (simp add: noDomainRow_def truthy_str_def)
  have r: "enabled (newResource stubEnv noDomainRow)" "http (newResource stubEnv noDomainRow)"
    "domainId (newResource stubEnv noDomainRow) = None"
    by (simp_all add: newResource_def noDomainRow_def exampleRow_def)
  have 2: "getTraefikConfig stubEnv exampleTraefik [noDomainRow] = Inr config_output"
    using r
    by (simp add: getTraefikConfig_def aggregate_single [OF stubEnv_valid] processGroup_def
        processHttp_def truthy_str_def)
  have 3: "definesRedirect (Inr config_output)"
    by (rule definesRedirect_config_output)
  have "definesRedirect (Inr Map.empty) = False"
    by (simp add: definesRedirect_def)
  with 3 have 4: "Inr config_output \<noteq> (Inr Map.empty :: error + document)"
    by metis
  from 1 2 3 4 show ?thesis by blast
qed

section \<open>The route-group key\<close>

lemma targets_newResource: "targets (newResource e r) = []"
  by (simp add: newResource_def)

lemma pathKey_collision: "pathKey e rewriteRow = pathKey e dashedRewriteRow"
proof (cases "or_empty (sanitize e (Some ''/api'')) = []")
  case True
  then show ?thesis
    by (simp add: pathKey_def rewriteRow_def dashedRewriteRow_def or_empty_def)
next
  case False
  then show ?thesis
    by (simp add: pathKey_def rewriteRow_def dashedRewriteRow_def or_empty_def)
qed

text \<open>
  C8 asks that two rows of one resource with different path/rewrite settings get different
  group keys.  The key joins the non-empty settings with a dash, so the settings
  (prefix, \<^verbatim>\<open>/new\<close>, prefix) and (prefix, \<^verbatim>\<open>/new-prefix\<close>, none) of the two rows below
  give the same key whatever \<^verbatim>\<open>sanitize\<close> does, and aggregation puts both targets into
  the one group of the first row.
\<close>

theorem group_key_collision:
  "row_resourceId rewriteRow = row_resourceId dashedRewriteRow
   \<and> (row_rewritePath rewriteRow, row_rewritePathType rewriteRow)
       \<noteq> (row_rewritePath dashedRewriteRow, row_rewritePathType dashedRewriteRow)
   \<and> groupKey e rewriteRow = groupKey e dashedRewriteRow
   \<and> map (\<lambda>(k, r). (rewritePath r, rewritePathType r, map target_targetId (targets r)))
        (aggregate (e\<lparr>validatePathRewriteConfig := \<lambda>_ _ _ _. True\<rparr>)
           [rewriteRow, dashedRewriteRow])
       = [(Some ''/new'', Some ''prefix'', [1, 2])]"
proof -
  have 1: "row_resourceId rewriteRow = row_resourceId dashedRewriteRow"
    by (simp add: rewriteRow_def dashedRewriteRow_def)
  have 2: "(row_rewritePath rewriteRow, row_rewritePathType rewriteRow)
       \<noteq> (row_rewritePath dashedRewriteRow, row_rewritePathType dashedRewriteRow)"
    by (simp add: rewriteRow_def dashedRewriteRow_def)
  have 3: "groupKey e' rewriteRow = groupKey e' dashedRewriteRow" for e'
    using pathKey_collision [of e'] 1 by (simp add: groupKey_def mapKey_def)
  have t: "rewritePath (newResource e' rewriteRow) = Some ''/new''"
    "rewritePathType (newResource e' rewriteRow) = Some ''prefix''" for e'
    by (simp_all add: newResource_def rewriteRow_def exampleRow_def)
  have u: "target_targetId (targetOf rewriteRow) = 1"
    "target_targetId (targetOf dashedRewriteRow) = 2"
    by (simp_all add: targetOf_def rewriteRow_def dashedRewriteRow_def exampleRow_def)
  have 4: "map (\<lambda>(k, r). (rewritePath r, rewritePathType r, map target_targetId (targets r)))
        (aggregate (e\<lparr>validatePathRewriteConfig := \<lambda>_ _ _ _. True\<rparr>)
           [rewriteRow, dashedRewriteRow])
       = [(Some ''/new'', Some ''prefix'', [1, 2])]"
    using t [of "e\<lparr>validatePathRewriteConfig := \<lambda>_ _ _ _. True\<rparr>"] u
    by (simp add: aggregate_def addRow_def pushTarget_def Let_def targets_newResource
        3 [of "e\<lparr>validatePathRewriteConfig := \<lambda>_ _ _ _. True\<rparr>", symmetric])
  from 1 2 3 4 show ?thesis by blast
qed


section \<open>The example of the specification\<close>

text \<open>
  One HTTP resource, SSL on, one healthy local target at 10.0.0.5:8080: the document has the
  router with rule \<^verbatim>\<open>Host(`example.com`)\<close> and priority 100, and the service has the one
  server \<^verbatim>\<open>http://10.0.0.5:8080\<close>.
\<close>

lemma example_document:
  "httpRouters (getTraefikConfig stubEnv exampleTraefik [exampleRow]) ''1-app-router''
     = Some \<lparr> router_entryPoints = [''websecure''],
              router_middlewares = Some [''badger''],
              router_service = ''1-app-service'',
              router_rule = Some ''Host(`example.com`)'',
              router_priority = Some 100,
              router_tls = Some \<lparr> tls_certResolver = ''letsencrypt'', tls_domains = None \<rparr> \<rparr>
   \<and> lb_servers (normalService (Some ''1'') exampleResource)
       = [Some (Url ''http://10.0.0.5:8080'')]"
proof -
  have e: "enabled exampleResource \<and> truthy_str (domainId exampleResource)
             \<and> truthy_str (fullDomain exampleResource) \<and> \<not> showMaintenancePage exampleResource"
    by (simp add: exampleResource_def truthy_str_def showMaintenancePage_def)
  have a: "aggregate stubEnv [exampleRow] = [] @ (Some ''1'', exampleResource) # []"
    by (simp add: aggregate_examples)
  have ret: "returnsDocument (getTraefikConfig stubEnv exampleTraefik [exampleRow])"
    by (rule getTraefikConfig_returns)
       (simp add: aggregate_examples example_resources example_headers)
  have c: "chainOf stubEnv exampleTraefik (Some ''1'') exampleResource initialHttp
     = Inr (middlewares initialHttp, [''badger''])"
    by (simp add: chainOf_def applyRewrite_def applyHeaders_def exampleResource_def
        exampleTraefik_def badgerMiddlewareName_def truthy_str_def)
  have n: "routerNameOf (Some ''1'') exampleResource = ''1-app-router''"
    by (simp add: routerNameOf_def tmpl_undefined_def exampleResource_def)
  have r: "normalRouter exampleTraefik (Some ''1'') exampleResource [''badger'']
     = \<lparr> router_entryPoints = [''websecure''],
              router_middlewares = Some [''badger''],
              router_service = ''1-app-service'',
              router_rule = Some ''Host(`example.com`)'',
              router_priority = Some 100,
              router_tls = Some \<lparr> tls_certResolver = ''letsencrypt'', tls_domains = None \<rparr> \<rparr>"
    by (simp add: normalRouter_def serviceNameOf_def tmpl_undefined_def ruleOf_def hostRule_def
        tmpl_null_def priorityOf_def normalTls_def resolverName_def preferWildcard_def
        preferWildcardCert_def exampleResource_def exampleTraefik_def truthy_str_def)
  have s: "lb_servers (normalService (Some ''1'') exampleResource)
       = [Some (Url ''http://10.0.0.5:8080'')]"
    by (simp add: normalService_def exampleResource_def httpServers_def httpKeep_def
      httpServerOf_def filter_indexed_firstUrls sameUrl_simps anySitesOnline_def
      example_targets truthy_defs tmpl_null_def tmpl_num_def num_str_8080)
  have "\<forall>kr \<in> set ([] @ []). \<forall>n \<in> set (routerNamesOf (Some ''1'', exampleResource)).
          n \<notin> set (routerNamesOf kr)"
    by simp
  from group_routers_in_document(2) [OF a example_resources(1) ret this,
      where h = initialHttp] e
  have "httpRouters (getTraefikConfig stubEnv exampleTraefik [exampleRow]) ''1-app-router''
          = Some (normalRouter exampleTraefik (Some ''1'') exampleResource [''badger''])"
    by (simp add: c n)
  then show ?thesis unfolding r using s by simp
qed


end
